theory Spec2Isabelle
  imports Main "HOL-Library.Sublist"
begin

section \<open>The browser client of the interview trainer (script.js)\<close>

text \<open>
  The module-level variables of \<^verbatim>\<open>script.js\<close> become one record of state, every function
  that assigns to them takes the state and returns the new one. What the browser answers
  (a fetch, \<^verbatim>\<open>querySelector\<close>, \<^verbatim>\<open>window.scrollTo\<close>) is an argument of the function that
  asks for it.

  JavaScript strings are modelled as lists of \<^typ>\<open>char\<close>, one \<^typ>\<open>char\<close> for one code unit;
  the model covers the strings whose code units are below 256.
\<close>

subsection \<open>String primitives\<close>

text \<open>\<^verbatim>\<open>String.prototype.toLowerCase\<close> on code units below 256: the letters A to Z and the
  Latin-1 capitals 0xC0 to 0xDE (0xD7, the multiplication sign, is no letter) move up by 32.\<close>

definition lower_char :: "char \<Rightarrow> char" where
  "lower_char c =
     (let n = of_char c :: nat
      in if (65 \<le> n \<and> n \<le> 90) \<or> (192 \<le> n \<and> n \<le> 222 \<and> n \<noteq> 215)
         then char_of (n + 32) else c)"

definition toLowerCase :: "string \<Rightarrow> string" where
  "toLowerCase s = map lower_char s"

text \<open>\<^verbatim>\<open>s.includes(t)\<close>: \<open>t\<close> occurs in \<open>s\<close> at some position, tried from the left.\<close>

fun includes_str :: "string \<Rightarrow> string \<Rightarrow> bool" where
  "includes_str [] t = (t = [])"
| "includes_str (c # cs) t = (prefix t (c # cs) \<or> includes_str cs t)"

text \<open>\<^verbatim>\<open>Array.prototype.join\<close> with a separator.\<close>

fun join :: "string \<Rightarrow> string list \<Rightarrow> string" where
  "join sep [] = []"
| "join sep [x] = x"
| "join sep (x # y # ys) = x @ sep @ join sep (y # ys)"

text \<open>\<^verbatim>\<open>Array.prototype.slice(start, end)\<close>: a negative index counts from the end, both are
  clamped to the array; \<open>None\<close> is an omitted end.\<close>

definition slice :: "int \<Rightarrow> int option \<Rightarrow> 'a list \<Rightarrow> 'a list" where
  "slice start fin xs =
     (let len = int (length xs);
          k = (if start < 0 then max (len + start) 0 else min start len);
          final = (case fin of None \<Rightarrow> len
                   | Some e \<Rightarrow> if e < 0 then max (len + e) 0 else min e len)
      in take (nat (final - k)) (drop (nat k) xs))"

subsection \<open>escapeHtml\<close>

text \<open>The object literal of \<^verbatim>\<open>escapeHtml\<close>: eight entries, the one for \<open>></\<close> among them.\<close>

definition entityMap :: "char \<Rightarrow> string option" where
  "entityMap c =
     (if c = CHR ''&'' then Some ''&amp;''
      else if c = CHR ''<'' then Some ''&lt;''
      else if c = CHR ''>'' then Some ''&gt;''
      else if c = CHR 0x22 then Some ''&quot;''
      else if c = CHR 0x27 then Some ''&#39;''
      else if c = CHR ''/'' then Some ''&#47;''
      else if c = CHR 0x60 then Some ''&#96;''
      else if c = CHR ''='' then Some ''&#61;''
      else None)"

text \<open>The character class of the regular expression: ampersand, less-than, double quote,
  single quote, backtick, equals sign and slash.\<close>

definition escapeClass :: "char \<Rightarrow> bool" where
  "escapeClass c \<longleftrightarrow>
     c = CHR ''&'' \<or> c = CHR ''<'' \<or> c = CHR 0x22 \<or> c = CHR 0x27 \<or> c = CHR 0x60
     \<or> c = CHR ''='' \<or> c = CHR ''/''"

text \<open>The replacement function: the table's entry; a key the table lacks would give
  \<^verbatim>\<open>undefined\<close>, which \<^verbatim>\<open>replace\<close> writes as the text "undefined".\<close>

definition replacement :: "char \<Rightarrow> string" where
  "replacement c = (case entityMap c of Some e \<Rightarrow> e | None \<Rightarrow> ''undefined'')"

text \<open>\<^verbatim>\<open>unsafe.replace(/[...]/g, f)\<close>: a scan from the left, each code unit of the class
  replaced, every other one copied.\<close>

fun escapeHtml :: "string \<Rightarrow> string" where
  "escapeHtml [] = []"
| "escapeHtml (c # cs) = (if escapeClass c then replacement c else [c]) @ escapeHtml cs"

text \<open>The seven entities that \<^const>\<open>escapeHtml\<close> can write.\<close>

definition entities :: "string list" where
  "entities = [''&amp;'', ''&lt;'', ''&quot;'', ''&#39;'', ''&#96;'', ''&#61;'', ''&#47;'']"

subsection \<open>Text parsing: trim, parseInt, split\<close>

text \<open>The white space of \<^verbatim>\<open>String.prototype.trim\<close> and of \<^verbatim>\<open>parseInt\<close> below 256: tab, line
  feed, vertical tab, form feed, carriage return, space and the no-break space.\<close>

definition is_ws :: "char \<Rightarrow> bool" where
  "is_ws c \<longleftrightarrow> c \<in> set [CHR 0x09, CHR 0x0A, CHR 0x0B, CHR 0x0C, CHR 0x0D, CHR 0x20, CHR 0xA0]"

definition trim :: "string \<Rightarrow> string" where
  "trim s = rev (dropWhile is_ws (rev (dropWhile is_ws s)))"

definition is_digit :: "char \<Rightarrow> bool" where
  "is_digit c \<longleftrightarrow> c \<in> set ''0123456789''"

definition digits_value :: "string \<Rightarrow> int" where
  "digits_value ds = foldl (\<lambda>a c. 10 * a + (int (of_char c) - 48)) 0 ds"

text \<open>\<^verbatim>\<open>parseInt(s, 10)\<close>: leading white space is skipped, one sign is read, then the longest
  run of decimal digits; \<open>None\<close> is NaN, the result when there is no digit. The value is kept
  as an integer (a JavaScript number rounds above \<open>2^53\<close>, far beyond any array length).\<close>

definition parseInt :: "string \<Rightarrow> int option" where
  "parseInt s =
     (let t = dropWhile is_ws s;
          neg = (case t of [] \<Rightarrow> False | c # _ \<Rightarrow> c = CHR ''-'');
          r = (case t of [] \<Rightarrow> [] | c # cs \<Rightarrow> if c = CHR ''-'' \<or> c = CHR ''+'' then cs else t);
          ds = takeWhile is_digit r
      in if ds = [] then None
         else Some (if neg then - digits_value ds else digits_value ds))"

text \<open>\<^verbatim>\<open>ToIntegerOrInfinity\<close> on the result of \<^const>\<open>parseInt\<close>: NaN becomes 0.\<close>

definition toInteger :: "int option \<Rightarrow> int" where
  "toInteger v = (case v of None \<Rightarrow> 0 | Some n \<Rightarrow> n)"

text \<open>\<^verbatim>\<open>String.prototype.split\<close> with a regular expression without capture groups. The matcher
  says how many code units the expression matches at the head of the rest of the string.
  The scan keeps the piece read so far (reversed); a match ends the piece and the scan goes
  on behind it; an empty match at the start of a piece is stepped over.\<close>

type_synonym matcher = "string \<Rightarrow> nat option"

function split_scan :: "matcher \<Rightarrow> string \<Rightarrow> string \<Rightarrow> string list" where
  "split_scan m acc [] = [rev acc]"
| "split_scan m acc (c # cs) =
     (case m (c # cs) of
        None \<Rightarrow> split_scan m (c # acc) cs
      | Some n \<Rightarrow>
          if n = 0 then (if acc = [] then split_scan m [c] cs
                         else rev acc # split_scan m [] (c # cs))
          else rev acc # split_scan m [] (drop (n - 1) cs))"
  by pat_completeness auto
termination
  by (relation "measure (\<lambda>(m, acc, s). 2 * length s + (if acc = [] then 0 else 1))") auto

definition split_regex :: "matcher \<Rightarrow> string \<Rightarrow> string list" where
  "split_regex m s =
     (if s = [] then (case m [] of None \<Rightarrow> [[]] | Some _ \<Rightarrow> []) else split_scan m [] s)"

text \<open>The flag \<^verbatim>\<open>i\<close> compares canonical code units: a to z become A to Z, and no code unit
  from 128 on is ever made equal to one below 128.\<close>

definition canonicalize :: "char \<Rightarrow> char" where
  "canonicalize c =
     (case map_of (zip ''abcdefghijklmnopqrstuvwxyz'' ''ABCDEFGHIJKLMNOPQRSTUVWXYZ'') c of
        None \<Rightarrow> c
      | Some u \<Rightarrow> u)"

text \<open>A literal pattern under the flag \<^verbatim>\<open>i\<close>, matched at the head of a string: one code unit
  after the other, canonical forms compared.\<close>

fun matches_literal_i :: "string \<Rightarrow> string \<Rightarrow> bool" where
  "matches_literal_i [] s = True"
| "matches_literal_i (p # ps) [] = False"
| "matches_literal_i (p # ps) (c # cs) =
     (if canonicalize c = canonicalize p then matches_literal_i ps cs else False)"

text \<open>\<^verbatim>\<open>/===QUESTION PAPER===|===END PAPER===/i\<close>\<close>

definition match_paper_marker :: matcher where
  "match_paper_marker s =
     (if matches_literal_i ''===QUESTION PAPER==='' s then Some 20
      else if matches_literal_i ''===END PAPER==='' s then Some 15
      else None)"

text \<open>\<^verbatim>\<open>/\n\n|\n\d+\.|\n\[/\<close>: a line feed followed by a line feed, by digits and a full stop,
  or by an opening bracket.\<close>

definition match_question_break :: matcher where
  "match_question_break s =
     (case s of
        [] \<Rightarrow> None
      | c # r \<Rightarrow>
          if c \<noteq> CHR 0x0A then None
          else (case r of
                  [] \<Rightarrow> None
                | d # _ \<Rightarrow>
                    if d = CHR 0x0A then Some 2
                    else if is_digit d then
                      (let ds = takeWhile is_digit r
                       in case drop (length ds) r of
                            [] \<Rightarrow> None
                          | x # _ \<Rightarrow> if x = CHR ''.'' then Some (length ds + 2) else None)
                    else if d = CHR ''['' then Some 2
                    else None))"

subsection \<open>The global state\<close>

text \<open>What JavaScript can hand over where a string is expected: \<^verbatim>\<open>data.response\<close> of a reply
  that has no such field is \<^verbatim>\<open>undefined\<close>.\<close>

datatype jsval = Undefined | Str string

text \<open>A value inside a template literal or after \<^verbatim>\<open>'...' +\<close>.\<close>

fun toString :: "jsval \<Rightarrow> string" where
  "toString Undefined = ''undefined''"
| "toString (Str t) = t"

datatype error = TypeError | SyntaxError | InvalidStateError

text \<open>How a call ends; the state it leaves is returned beside it, since what a function has
  assigned before it throws stays assigned.\<close>

datatype completion = Returned | Threw error

record turn =
  role :: string
  content :: jsval

record user =
  user_id :: string
  username :: string
  user_type :: string

record question =
  qid :: nat
  q_text :: string

text \<open>The body of a request to \<^verbatim>\<open>/api/generate\<close>.\<close>

record request =
  api_key :: string
  prompt :: string
  history :: "turn list"

text \<open>An element of the page: its place in the tree is given by the nodes of its ancestors,
  the nearest first. The list of elements is in document order. An element without an id
  has the empty id.\<close>

record element =
  node :: nat
  el_id :: string
  classList :: "string list"
  data_section :: "string option"
  ancestors :: "nat list"

text \<open>The speech recogniser of the browser. Its \<^verbatim>\<open>start()\<close> raises InvalidStateError when
  recognition has already started (Web Speech API); \<^verbatim>\<open>stop()\<close> raises nothing.\<close>

record recognizer =
  started :: bool

record state =
  authToken :: "string option"
  currentUser :: "user option"
  apiKey :: string
  isRecording :: bool
  conversationHistory :: "turn list"
  sessionStartTime :: "nat option"
  questionCount :: nat
  correctionCount :: nat
  recognition :: "recognizer option"
  localStorage :: "string \<Rightarrow> string option"
  dom :: "element list"
  windowScroll :: "nat \<times> nat"
  inputValue :: "string \<Rightarrow> string"
  styleDisplay :: "string \<Rightarrow> string"
  recordBtnRecording :: bool
  recordBtnText :: string
  voiceTranscript :: "string list"
  chatMessages :: "(string \<times> string) list"
  hasSpeechSynthesis :: bool
  speechQueue :: "string list"
  toasts :: "(string \<times> string) list"
  generateCalls :: "request list"
  loads :: "string list"
  generated_papers :: "(string \<Rightarrow> string option) option"
  selected_generated_questions :: "question list option"

text \<open>
  \<^item> \<open>inputValue\<close> and \<open>styleDisplay\<close> give the \<^verbatim>\<open>value\<close> and the \<^verbatim>\<open>style.display\<close> of the element
    with the given id (for \<^verbatim>\<open>.interview-setup\<close>, of the element with that class).
  \<^item> \<open>recordBtnRecording\<close> and \<open>recordBtnText\<close> are the class \<^verbatim>\<open>recording\<close> and the label of
    the record button; \<open>voiceTranscript\<close> and \<open>chatMessages\<close> are the entries of the two panels.
  \<^item> \<open>toasts\<close> are the notices shown by \<^verbatim>\<open>showToast\<close>, \<open>generateCalls\<close> the requests sent to
    \<^verbatim>\<open>/api/generate\<close>, \<open>loads\<close> the list loaders started by a navigation button, all with the
    latest last.
  \<^item> The elements that the page's own markup gives (the record button, the toast, the two
    selects of the interview set-up, the panels) are taken to exist: looking them up does
    not fail. The duration timer and the two counters' text nodes are not modelled.
\<close>

definition showToast :: "string \<Rightarrow> string \<Rightarrow> state \<Rightarrow> state" where
  "showToast message type s = s\<lparr>toasts := toasts s @ [(message, type)]\<rparr>"

subsection \<open>Screen and section navigation\<close>

definition has_class :: "string \<Rightarrow> element \<Rightarrow> bool" where
  "has_class c e \<longleftrightarrow> c \<in> set (classList e)"

definition classList_remove :: "string \<Rightarrow> element \<Rightarrow> element" where
  "classList_remove c e = e\<lparr>classList := filter (\<lambda>x. x \<noteq> c) (classList e)\<rparr>"

definition classList_add :: "string \<Rightarrow> element \<Rightarrow> element" where
  "classList_add c e = (if has_class c e then e else e\<lparr>classList := classList e @ [c]\<rparr>)"

text \<open>\<^verbatim>\<open>querySelectorAll('.cls').forEach(x => x.classList.remove('active'))\<close> over the elements
  that satisfy \<open>scope\<close>.\<close>

definition deactivate_all :: "(element \<Rightarrow> bool) \<Rightarrow> string \<Rightarrow> element list \<Rightarrow> element list" where
  "deactivate_all scope cls d =
     map (\<lambda>e. if scope e \<and> has_class cls e then classList_remove ''active'' e else e) d"

text \<open>The first element in document order that satisfies \<open>P\<close>, as \<^verbatim>\<open>getElementById\<close> and
  \<^verbatim>\<open>querySelector\<close> return it, and a change made to that element.\<close>

fun update_first :: "('a \<Rightarrow> bool) \<Rightarrow> ('a \<Rightarrow> 'a) \<Rightarrow> 'a list \<Rightarrow> 'a list" where
  "update_first P f [] = []"
| "update_first P f (x # xs) = (if P x then f x # xs else x # update_first P f xs)"

definition has_id :: "string \<Rightarrow> element \<Rightarrow> bool" where
  "has_id i e \<longleftrightarrow> i \<noteq> [] \<and> el_id e = i"

definition getElementById :: "string \<Rightarrow> element list \<Rightarrow> element option" where
  "getElementById i d = find (has_id i) d"

text \<open>\<^verbatim>\<open>try { window.scrollTo(0, 0); } catch (e) { }\<close>: \<open>scroll_ok\<close> tells whether the call
  succeeds.\<close>

definition scrollToTop :: "bool \<Rightarrow> state \<Rightarrow> state" where
  "scrollToTop scroll_ok s = (if scroll_ok then s\<lparr>windowScroll := (0, 0)\<rparr> else s)"

definition showScreen :: "string \<Rightarrow> bool \<Rightarrow> state \<Rightarrow> state" where
  "showScreen screenId scroll_ok s =
     (let d = deactivate_all (\<lambda>e. True) ''screen'' (dom s)
      in case getElementById screenId d of
           None \<Rightarrow> s\<lparr>dom := d\<rparr>
         | Some screenEl \<Rightarrow>
             scrollToTop scroll_ok
               (s\<lparr>dom := update_first (has_id screenId) (classList_add ''active'') d\<rparr>))"

text \<open>\<^verbatim>\<open>sectionId.replace(/Section$/, '')\<close>\<close>

definition strip_Section :: "string \<Rightarrow> string" where
  "strip_Section i =
     (if suffix ''Section'' i then take (length i - 7) i else i)"

text \<open>What \<^verbatim>\<open>querySelector\<close> answers for a selector text: it rejects the text with a
  SyntaxError, it finds nothing, or it finds an element, given here by its position in the
  list of the elements it has searched (the elements of the document, or the descendants
  of the element it is called on, in document order). How a selector text is read is the
  browser's matter, so the engine is an argument of the functions that build a selector
  from data.\<close>

datatype query_result = QueryThrows | QueryNull | QueryFound nat

type_synonym selector_engine = "string \<Rightarrow> element list \<Rightarrow> query_result"

text \<open>A change made to the element at position \<open>j\<close> among the elements that satisfy \<open>P\<close>,
  which are those the engine has searched.\<close>

fun update_found :: "('a \<Rightarrow> bool) \<Rightarrow> nat \<Rightarrow> ('a \<Rightarrow> 'a) \<Rightarrow> 'a list \<Rightarrow> 'a list" where
  "update_found P j f [] = []"
| "update_found P j f (x # xs) =
     (if P x then (case j of 0 \<Rightarrow> f x # xs | Suc i \<Rightarrow> x # update_found P i f xs)
      else x # update_found P j f xs)"

text \<open>\<^verbatim>\<open>if (el) el.classList.add('active')\<close> for the answer of the engine.\<close>

definition activate_found :: "(element \<Rightarrow> bool) \<Rightarrow> query_result \<Rightarrow> element list \<Rightarrow> element list" where
  "activate_found scope q d =
     (case q of QueryFound j \<Rightarrow> update_found scope j (classList_add ''active'') d | _ \<Rightarrow> d)"

text \<open>The template \<^verbatim>\<open>`[data-section="${name}"]`\<close>.\<close>

definition data_section_selector :: "string \<Rightarrow> string" where
  "data_section_selector name = ''[data-section='' @ [CHR 0x22] @ name @ [CHR 0x22] @ '']''"

definition has_data_section :: "string \<Rightarrow> element \<Rightarrow> bool" where
  "has_data_section n e \<longleftrightarrow> data_section e = Some n"

text \<open>\<^verbatim>\<open>switchSection\<close>. The call of \<^verbatim>\<open>document.querySelector\<close> is outside every \<^verbatim>\<open>try\<close>: when it
  raises, the function ends there, with the deactivations and the activation of the
  section done.\<close>

definition switchSection ::
  "string \<Rightarrow> selector_engine \<Rightarrow> bool \<Rightarrow> state \<Rightarrow> completion \<times> state" where
  "switchSection sectionId querySelector scroll_ok s =
     (let d1 = deactivate_all (\<lambda>e. True) ''content-section'' (dom s);
          d2 = deactivate_all (\<lambda>e. True) ''nav-btn'' d1;
          d3 = (case getElementById sectionId d2 of
                  None \<Rightarrow> d2
                | Some sectionEl \<Rightarrow> update_first (has_id sectionId) (classList_add ''active'') d2);
          sectionName = strip_Section sectionId;
          navBtn = querySelector (data_section_selector sectionName) d3
      in case navBtn of
           QueryThrows \<Rightarrow> (Threw SyntaxError, s\<lparr>dom := d3\<rparr>)
         | _ \<Rightarrow> (Returned,
                 scrollToTop scroll_ok (s\<lparr>dom := activate_found (\<lambda>e. True) navBtn d3\<rparr>)))"

text \<open>The click handler that \<^verbatim>\<open>initializeEventListeners\<close> gives to every navigation button.
  \<open>within k\<close> are the descendants of the element with node \<open>k\<close>.\<close>

definition within :: "nat \<Rightarrow> element \<Rightarrow> bool" where
  "within k e \<longleftrightarrow> k \<in> set (ancestors e)"

text \<open>\<^verbatim>\<open>btn.closest('.dashboard-container')\<close>: the button itself or its nearest ancestor with
  that class.\<close>

definition closest_dashboard :: "element \<Rightarrow> element list \<Rightarrow> nat option" where
  "closest_dashboard btn d =
     (if has_class ''dashboard-container'' btn then Some (node btn)
      else find (\<lambda>k. \<exists>e \<in> set d. node e = k \<and> has_class ''dashboard-container'' e)
             (ancestors btn))"

text \<open>The fixed selectors of the handler (\<^verbatim>\<open>'#assignmentsList'\<close> and the like) are plain id
  selectors: the dashboard has a descendant with that id.\<close>

definition exists_within :: "nat \<Rightarrow> string \<Rightarrow> element list \<Rightarrow> bool" where
  "exists_within k i d \<longleftrightarrow> (\<exists>e \<in> set d. within k e \<and> has_id i e)"

definition start_load :: "string \<Rightarrow> state \<Rightarrow> state" where
  "start_load f s = s\<lparr>loads := loads s @ [f]\<rparr>"

definition section_loads :: "nat \<Rightarrow> string option \<Rightarrow> state \<Rightarrow> state" where
  "section_loads k section s =
     (let d = dom s;
          s1 = (if exists_within k ''assignmentsList'' d \<and> section = Some ''assignments''
                then start_load ''loadAssignments'' s else s);
          s2 = (if exists_within k ''submissionsList'' d \<and> section = Some ''submissions''
                then start_load ''loadSubmissions'' s1 else s1);
          s3 = (if exists_within k ''interviewContainer'' d \<and> section = Some ''interview''
                then start_load ''setupInterview'' s2 else s2);
          s4 = (if exists_within k ''learningContainer'' d \<and> section = Some ''learning''
                then start_load ''setupLearning'' s3 else s3);
          s5 = (if exists_within k ''papersList'' d \<and> section = Some ''papers''
                then start_load ''loadTeacherPapers'' s4 else s4)
      in if exists_within k ''submissionsTable'' d \<and> section = Some ''submissions''
            \<and> exists_within k ''paperSelect'' d
         then s5\<lparr>inputValue := (inputValue s5)(''paperSelect'' := [])\<rparr> else s5)"

text \<open>\<^verbatim>\<open>dashboard.querySelector\<close> searches the descendants of the dashboard. Both calls with a
  selector built from \<^verbatim>\<open>data-section\<close> are outside every \<^verbatim>\<open>try\<close>.\<close>

definition navClick :: "element \<Rightarrow> selector_engine \<Rightarrow> state \<Rightarrow> completion \<times> state" where
  "navClick btn querySelector s =
     (let section = data_section btn
      in case closest_dashboard btn (dom s) of
           None \<Rightarrow> (Returned, s)
         | Some k \<Rightarrow>
             (let d1 = deactivate_all (within k) ''content-section'' (dom s);
                  d2 = deactivate_all (within k) ''nav-btn'' d1;
                  name = (case section of None \<Rightarrow> ''undefined'' | Some n \<Rightarrow> n);
                  sectionId = name @ ''Section'';
                  sectionEl = querySelector (''#'' @ sectionId) (filter (within k) d2)
              in case sectionEl of
                   QueryThrows \<Rightarrow> (Threw SyntaxError, s\<lparr>dom := d2\<rparr>)
                 | _ \<Rightarrow>
                   (let d3 = activate_found (within k) sectionEl d2;
                        navBtn = querySelector (data_section_selector name)
                                   (filter (within k) d3)
                    in case navBtn of
                         QueryThrows \<Rightarrow> (Threw SyntaxError, s\<lparr>dom := d3\<rparr>)
                       | _ \<Rightarrow>
                         (Returned,
                          section_loads k section
                            (s\<lparr>dom := activate_found (within k) navBtn d3\<rparr>)))))"

subsection \<open>Authentication\<close>

text \<open>\<^verbatim>\<open>loadDashboard\<close>: the screen of the user's kind, the list loader of that dashboard and
  the API key put into the dashboard's input when the page has one. Reading
  \<^verbatim>\<open>currentUser.user_type\<close> of no user raises TypeError.\<close>

definition fill_api_key_input :: "string \<Rightarrow> state \<Rightarrow> state" where
  "fill_api_key_input i s =
     (case getElementById i (dom s) of
        None \<Rightarrow> s
      | Some el \<Rightarrow>
          s\<lparr>inputValue := (inputValue s)
               (i := (if apiKey s \<noteq> [] then apiKey s
                      else case localStorage s ''apiKey'' of
                             None \<Rightarrow> []
                           | Some k \<Rightarrow> k))\<rparr>)"

definition loadDashboard :: "bool \<Rightarrow> state \<Rightarrow> completion \<times> state" where
  "loadDashboard scroll_ok s =
     (case currentUser s of
        None \<Rightarrow> (Threw TypeError, s)
      | Some u \<Rightarrow>
          (let s1 = showScreen (if user_type u = ''teacher'' then ''teacherDashboard''
                                else ''studentDashboard'') scroll_ok s
           in if user_type u = ''student''
              then (Returned, fill_api_key_input ''dashboardApiKeyInput''
                                (start_load ''loadAssignments'' s1))
              else (Returned, fill_api_key_input ''teacherDashboardApiKeyInput''
                                (start_load ''loadTeacherPapers'' s1))))"

text \<open>What \<^verbatim>\<open>/api/auth/verify\<close> answers: the fetch or the reading of the body fails, or there is
  a status (\<open>ok\<close> or not) and the user record of the body.\<close>

datatype verify_result = VerifyFailed | VerifyResponded bool user

text \<open>\<^verbatim>\<open>checkAuth\<close>: a missing or empty stored token leads to the authentication screen at once.
  With a token, an answer that is \<open>ok\<close> sets the two variables and loads the dashboard; a
  throw inside the \<^verbatim>\<open>try\<close> block, \<^verbatim>\<open>loadDashboard\<close> included, is caught and leads to the
  authentication screen as every other answer does.\<close>

definition checkAuth :: "verify_result \<Rightarrow> bool \<Rightarrow> state \<Rightarrow> state" where
  "checkAuth v scroll_ok s =
     (case localStorage s ''authToken'' of
        None \<Rightarrow> showScreen ''authScreen'' scroll_ok s
      | Some token \<Rightarrow>
          if token = [] then showScreen ''authScreen'' scroll_ok s
          else (case v of
                  VerifyResponded True data \<Rightarrow>
                    (case loadDashboard scroll_ok
                            (s\<lparr>authToken := Some token, currentUser := Some data\<rparr>) of
                       (Returned, s') \<Rightarrow> s'
                     | (Threw e, s') \<Rightarrow> showScreen ''authScreen'' scroll_ok s')
                | _ \<Rightarrow> showScreen ''authScreen'' scroll_ok s))"

text \<open>\<^verbatim>\<open>handleLogout\<close>: the answer to the logout request is not looked at and its failure is
  caught, so it is no argument here.\<close>

definition handleLogout :: "verify_result \<Rightarrow> bool \<Rightarrow> state \<Rightarrow> state" where
  "handleLogout v scroll_ok s =
     showToast ''Logged out successfully'' ''success''
       (checkAuth v scroll_ok
          (s\<lparr>localStorage := (localStorage s)(''authToken'' := None),
             authToken := None,
             currentUser := None\<rparr>))"

text \<open>\<^verbatim>\<open>saveDashboardApiKey\<close> is the function that writes the API key to both places.\<close>

definition saveDashboardApiKey :: "string \<Rightarrow> state \<Rightarrow> state" where
  "saveDashboardApiKey inputId s =
     (case getElementById inputId (dom s) of
        None \<Rightarrow> s
      | Some input \<Rightarrow>
          (let k = trim (inputValue s inputId)
           in if k = [] then showToast ''API key cannot be empty'' ''error'' s
              else showToast ''API key saved for this browser'' ''success''
                     (s\<lparr>apiKey := k, localStorage := (localStorage s)(''apiKey'' := Some k)\<rparr>)))"

subsection \<open>The recording controller\<close>

definition recognition_start :: "recognizer \<Rightarrow> error + recognizer" where
  "recognition_start r = (if started r then Inl InvalidStateError else Inr (r\<lparr>started := True\<rparr>))"

definition recognition_stop :: "recognizer \<Rightarrow> error + recognizer" where
  "recognition_stop r = Inr (r\<lparr>started := False\<rparr>)"

definition stopRecording :: "state \<Rightarrow> state" where
  "stopRecording s =
     (let s1 = s\<lparr>isRecording := False, recordBtnRecording := False,
                 recordBtnText := ''Press to Speak''\<rparr>
      in case recognition s1 of
           None \<Rightarrow> s1
         | Some r \<Rightarrow>
             (case recognition_stop r of
                Inl e \<Rightarrow> s1
              | Inr r' \<Rightarrow> s1\<lparr>recognition := Some r'\<rparr>))"

definition startRecording :: "state \<Rightarrow> state" where
  "startRecording s =
     (case recognition s of
        None \<Rightarrow> showToast ''Speech recognition not supported'' ''error'' s
      | Some r \<Rightarrow>
          (let s1 = s\<lparr>isRecording := True, recordBtnRecording := True,
                      recordBtnText := ''Listening...''\<rparr>
           in case recognition_start r of
                Inl e \<Rightarrow> stopRecording s1
              | Inr r' \<Rightarrow> s1\<lparr>recognition := Some r'\<rparr>))"

definition toggleRecording :: "state \<Rightarrow> state" where
  "toggleRecording s = (if isRecording s then stopRecording s else startRecording s)"

subsection \<open>The conversational exchange\<close>

text \<open>What the fetch of \<^verbatim>\<open>/api/generate\<close> brings: the promise rejects (with the error's
  message), or there is a response with its \<open>ok\<close> flag whose body either cannot be read as
  the expected object (again an error with a message) or gives the fields \<^verbatim>\<open>error\<close> and
  \<^verbatim>\<open>response\<close>.\<close>

datatype json_result = JsonThrows string | JsonData "string option" jsval

datatype fetch_result = Rejected string | Responded bool json_result

definition apology :: string where
  "apology = ''I apologize, but I encountered an error. Could you please repeat that?''"

text \<open>\<^verbatim>\<open>data.error || 'Unknown error'\<close>: a missing or empty field gives the default.\<close>

definition error_or_unknown :: "string option \<Rightarrow> string" where
  "error_or_unknown e = (case e of None \<Rightarrow> ''Unknown error''
                         | Some m \<Rightarrow> if m = [] then ''Unknown error'' else m)"

definition callGeminiAPI :: "fetch_result \<Rightarrow> string \<Rightarrow> state \<Rightarrow> jsval \<times> state" where
  "callGeminiAPI r p s =
     (let s1 = s\<lparr>generateCalls := generateCalls s @
                   [\<lparr>api_key = apiKey s, prompt = p, history = conversationHistory s\<rparr>]\<rparr>
      in case r of
           Rejected m \<Rightarrow> (Str apology, showToast (''API call failed: '' @ m) ''error'' s1)
         | Responded ok (JsonThrows m) \<Rightarrow>
             (Str apology, showToast (''API call failed: '' @ m) ''error'' s1)
         | Responded ok (JsonData err resp) \<Rightarrow>
             if \<not> ok
             then (Str apology,
                   showToast (''API error: '' @ error_or_unknown err) ''error'' s1)
             else (resp, s1))"

definition addTranscript :: "string \<Rightarrow> state \<Rightarrow> state" where
  "addTranscript t s = s\<lparr>voiceTranscript := voiceTranscript s @ [t]\<rparr>"

definition addChatMessage :: "string \<Rightarrow> string \<Rightarrow> state \<Rightarrow> state" where
  "addChatMessage t sender s = s\<lparr>chatMessages := chatMessages s @ [(t, sender)]\<rparr>"

text \<open>\<^verbatim>\<open>speakText\<close>: \<^verbatim>\<open>cancel()\<close> empties the queue of the synthesiser, then the text is queued.
  The constructor of the utterance takes \<^verbatim>\<open>undefined\<close> for a text left out, which is the empty
  text.\<close>

fun utterance_text :: "jsval \<Rightarrow> string" where
  "utterance_text Undefined = []"
| "utterance_text (Str t) = t"

definition speakText :: "jsval \<Rightarrow> state \<Rightarrow> state" where
  "speakText t s =
     (if hasSpeechSynthesis s then s\<lparr>speechQueue := [utterance_text t]\<rparr> else s)"

text \<open>The response goes to the surface on display: the transcript and the synthesiser
  unless the voice panel is hidden, the message list otherwise.\<close>

definition present :: "jsval \<Rightarrow> state \<Rightarrow> state" where
  "present response s =
     (if styleDisplay s ''voiceMode'' \<noteq> ''none''
      then speakText response
             (addTranscript (''Interviewer: '' @ toString response) s)
      else addChatMessage (toString response) ''ai'' s)"

definition greeting_prompt :: "string \<Rightarrow> string \<Rightarrow> string" where
  "greeting_prompt interviewType difficulty =
     ''You are an expert interview coach. Start a '' @ interviewType @ '' interview at ''
     @ difficulty @ '' level.'' @ [CHR 0x0A]
     @ ''    Greet the candidate warmly and ask your first question. ''
     @ ''Keep your responses natural and conversational.''"

definition sendInitialGreeting :: "fetch_result \<Rightarrow> state \<Rightarrow> state" where
  "sendInitialGreeting r s =
     (let p = greeting_prompt (inputValue s ''interviewType'') (inputValue s ''difficulty'');
          (response, s1) = callGeminiAPI r p s;
          s2 = present response s1
      in s2\<lparr>questionCount := questionCount s2 + 1\<rparr>)"

text \<open>One line of the context: \<^verbatim>\<open>`${msg.role}: ${msg.content}`\<close>.\<close>

definition turn_line :: "turn \<Rightarrow> string" where
  "turn_line msg = role msg @ '': '' @ toString (content msg)"

definition response_prompt :: "string \<Rightarrow> string \<Rightarrow> turn list \<Rightarrow> string \<Rightarrow> string" where
  "response_prompt interviewType difficulty hist userMessage =
     ''You are an expert interview coach conducting a '' @ interviewType
     @ '' interview at '' @ difficulty @ '' level.'' @ [CHR 0x0A]
     @ ''    '' @ [CHR 0x0A]
     @ ''Previous conversation:'' @ [CHR 0x0A]
     @ join [CHR 0x0A] (map turn_line (slice (- 5) None hist)) @ [CHR 0x0A]
     @ [CHR 0x0A]
     @ ''The candidate just said: '' @ [CHR 0x22] @ userMessage @ [CHR 0x22, CHR 0x0A]
     @ [CHR 0x0A]
     @ ''Analyze their response and:'' @ [CHR 0x0A]
     @ ''1. If there are issues, provide a brief correction starting with ''
     @ [CHR 0x22] @ ''Correction: '' @ [CHR 0x22, CHR 0x0A]
     @ ''2. Provide encouragement if tone is good'' @ [CHR 0x0A]
     @ ''3. Ask your next question'' @ [CHR 0x0A]
     @ [CHR 0x0A]
     @ ''Keep responses natural and conversational.''"

text \<open>\<^verbatim>\<open>processUserResponse\<close>. \<^verbatim>\<open>response.toLowerCase()\<close> raises TypeError when the reply had no
  \<^verbatim>\<open>response\<close> field; both turns are in the history by then.\<close>

definition processUserResponse :: "fetch_result \<Rightarrow> string \<Rightarrow> state \<Rightarrow> completion \<times> state" where
  "processUserResponse r userMessage s =
     (let s1 = s\<lparr>conversationHistory := conversationHistory s @
                   [\<lparr>role = ''user'', content = Str userMessage\<rparr>]\<rparr>;
          p = response_prompt (inputValue s1 ''interviewType'') (inputValue s1 ''difficulty'')
                (conversationHistory s1) userMessage;
          (response, s2) = callGeminiAPI r p s1;
          s3 = s2\<lparr>conversationHistory := conversationHistory s2 @
                   [\<lparr>role = ''assistant'', content = response\<rparr>]\<rparr>
      in case response of
           Undefined \<Rightarrow> (Threw TypeError, s3)
         | Str t \<Rightarrow>
             (let hasCorrection = includes_str (toLowerCase t) ''correction:'';
                  s4 = (if hasCorrection then s3\<lparr>correctionCount := correctionCount s3 + 1\<rparr>
                        else s3);
                  s5 = present response s4
              in (Returned, s5\<lparr>questionCount := questionCount s5 + 1\<rparr>)))"

text \<open>\<^verbatim>\<open>startInterview\<close> at the time \<open>now\<close>. The greeting is not awaited: what
  \<^verbatim>\<open>sendInitialGreeting\<close> does before its first pause (reading the two selects, sending the
  request) touches nothing that the mode set-up reads or writes, and what it does with the
  reply happens once \<^verbatim>\<open>startInterview\<close> has returned. So the mode is set first here.\<close>

definition startInterview :: "nat \<Rightarrow> fetch_result \<Rightarrow> bool \<Rightarrow> state \<Rightarrow> state" where
  "startInterview now r scroll_ok s =
     (if apiKey s = []
      then showScreen ''apiSetup'' scroll_ok
             (showToast ''Please configure API key first'' ''error'' s)
      else
        (let s1 = s\<lparr>styleDisplay := (styleDisplay s)
                       (''.interview-setup'' := ''none'', ''interviewContainer'' := ''block''),
                    sessionStartTime := Some now,
                    questionCount := 0,
                    correctionCount := 0,
                    conversationHistory := [],
                    voiceTranscript := [],
                    chatMessages := []\<rparr>;
             s2 = (if inputValue s1 ''practiceMode'' = ''voice''
                   then s1\<lparr>styleDisplay := (styleDisplay s1)
                             (''voiceMode'' := ''flex'', ''chatMode'' := ''none'')\<rparr>
                   else s1\<lparr>styleDisplay := (styleDisplay s1)
                             (''voiceMode'' := ''none'', ''chatMode'' := ''block'')\<rparr>)
         in sendInitialGreeting r s2))"

definition startNewInterview :: "nat \<Rightarrow> fetch_result \<Rightarrow> state \<Rightarrow> state" where
  "startNewInterview now r s =
     sendInitialGreeting r
       (s\<lparr>conversationHistory := [], questionCount := 0, correctionCount := 0,
          sessionStartTime := Some now, chatMessages := [], voiceTranscript := []\<rparr>)"

text \<open>A session: the exchanges that follow one another, each with the utterance and with what
  the fetch brings. An exchange that throws leaves the page running, the next one starts
  from the state it left.\<close>

fun exchanges :: "(string \<times> fetch_result) list \<Rightarrow> state \<Rightarrow> state" where
  "exchanges [] s = s"
| "exchanges ((m, r) # rest) s = exchanges rest (snd (processUserResponse r m s))"

subsection \<open>Selecting a generated paper\<close>

text \<open>\<^verbatim>\<open>useGeneratedPaper\<close>. The dash in its last notice is written as a hyphen. The chain of calls
  that parses the paper is given in two parts: \<open>question_candidates\<close> is everything up to
  the filter on the length, \<open>parse_questions\<close> the cut by \<^verbatim>\<open>slice\<close> and the numbering.\<close>

definition question_candidates :: "string \<Rightarrow> string list" where
  "question_candidates paper =
     (let parts = filter (\<lambda>p. trim p \<noteq> []) (split_regex match_paper_marker paper);
          questionsText = (case parts of [] \<Rightarrow> paper | p # _ \<Rightarrow> p)
      in filter (\<lambda>q. length q > 20)
           (map trim (split_regex match_question_break questionsText)))"

definition parse_questions :: "string \<Rightarrow> string \<Rightarrow> question list" where
  "parse_questions numQuestions paper =
     (let limit = parseInt (if numQuestions = [] then ''10'' else numQuestions);
          questions = slice 0 (Some (toInteger limit)) (question_candidates paper)
      in map (\<lambda>(i, q). \<lparr>qid = i + 1, q_text = q\<rparr>) (enumerate 0 questions))"

text \<open>\<^verbatim>\<open>window._generated_papers\<close> is undefined (\<open>None\<close>) until a paper has been generated, then
  a plain object whose own properties are the contents stored under the paper ids. Reading
  \<^verbatim>\<open>obj[key]\<close> of a plain object gives the own property, else the property that every
  object inherits from \<^verbatim>\<open>Object.prototype\<close> under that name (a function, and under the name
  \<^verbatim>\<open>__proto__\<close>, which no own property can take, the prototype itself), else \<^verbatim>\<open>undefined\<close>.\<close>

definition object_prototype_names :: "string list" where
  "object_prototype_names =
     [''constructor'', ''__proto__'', ''hasOwnProperty'', ''isPrototypeOf'',
      ''propertyIsEnumerable'', ''toLocaleString'', ''toString'', ''valueOf'',
      ''__defineGetter__'', ''__defineSetter__'', ''__lookupGetter__'', ''__lookupSetter__'']"

datatype property = NoProperty | Own string | Inherited

definition get_property :: "(string \<Rightarrow> string option) \<Rightarrow> string \<Rightarrow> property" where
  "get_property obj key =
     (if key = ''__proto__'' then Inherited
      else case obj key of
             Some v \<Rightarrow> Own v
           | None \<Rightarrow> if key \<in> set object_prototype_names then Inherited else NoProperty)"

text \<open>An inherited property is an object, so it passes the test \<^verbatim>\<open>!content\<close>, and it has no
  method \<^verbatim>\<open>split\<close>: the call raises TypeError before anything is assigned or shown.\<close>

definition useGeneratedPaper :: "string \<Rightarrow> state \<Rightarrow> completion \<times> state" where
  "useGeneratedPaper paperId s =
     (case generated_papers s of
        None \<Rightarrow> (Returned, showToast ''Paper not found'' ''error'' s)
      | Some obj \<Rightarrow>
          (case get_property obj paperId of
             NoProperty \<Rightarrow> (Returned, showToast ''Paper not found'' ''error'' s)
           | Inherited \<Rightarrow> (Threw TypeError, s)
           | Own paper \<Rightarrow>
               if paper = [] then (Returned, showToast ''Paper not found'' ''error'' s)
               else (Returned,
                     showToast
                       ''Generated paper selected - create assignment to assign it to students''
                       ''info''
                       (s\<lparr>selected_generated_questions :=
                            Some (parse_questions (inputValue s ''numQuestions'') paper)\<rparr>))))"

subsection \<open>Notions of the specification\<close>

text \<open>The two resting states of the recording controller: Idle, with the button in its idle
  look and the recogniser not started, and Active, recording with the recogniser started.\<close>

definition Idle :: "state \<Rightarrow> bool" where
  "Idle s \<longleftrightarrow> \<not> isRecording s \<and> \<not> recordBtnRecording s \<and> recordBtnText s = ''Press to Speak''
              \<and> (case recognition s of None \<Rightarrow> True | Some r \<Rightarrow> \<not> started r)"

definition Active :: "state \<Rightarrow> bool" where
  "Active s \<longleftrightarrow> isRecording s \<and> (case recognition s of None \<Rightarrow> False | Some r \<Rightarrow> started r)"

text \<open>The ids of the elements of a class that are active, in document order.\<close>

definition active_of :: "string \<Rightarrow> element list \<Rightarrow> string list" where
  "active_of cls d = map el_id (filter (\<lambda>e. has_class cls e \<and> has_class ''active'' e) d)"

text \<open>A fetch that fails: the promise rejects, or the status is not a success.\<close>

fun failed :: "fetch_result \<Rightarrow> bool" where
  "failed (Rejected m) = True"
| "failed (Responded ok b) = (\<not> ok)"

text \<open>What \<^const>\<open>callGeminiAPI\<close> returns for what the fetch has brought: the \<^verbatim>\<open>response\<close> field of a
  body read from a successful response, the apology in every other case.\<close>

fun reply :: "fetch_result \<Rightarrow> jsval" where
  "reply (Rejected m) = Str apology"
| "reply (Responded ok (JsonThrows m)) = Str apology"
| "reply (Responded ok (JsonData err resp)) = (if ok then resp else Str apology)"

text \<open>The two turns that an exchange appends.\<close>

definition user_turn :: "string \<Rightarrow> turn" where
  "user_turn m = \<lparr>role = ''user'', content = Str m\<rparr>"

definition assistant_turn :: "jsval \<Rightarrow> turn" where
  "assistant_turn v = \<lparr>role = ''assistant'', content = v\<rparr>"

text \<open>The turns that a sequence of exchanges appends, in order.\<close>

definition turns_of :: "(string \<times> fetch_result) list \<Rightarrow> turn list" where
  "turns_of xs = concat (map (\<lambda>(m, r). [user_turn m, assistant_turn (reply r)]) xs)"

text \<open>An assistant turn whose text contains the marker, whatever the case of its letters.\<close>

definition is_correction :: "turn \<Rightarrow> bool" where
  "is_correction t \<longleftrightarrow>
     role t = ''assistant''
     \<and> (case content t of Undefined \<Rightarrow> False
         | Str x \<Rightarrow> includes_str (toLowerCase x) ''correction:'')"

text \<open>The last \<open>n\<close> turns of a history, the oldest first.\<close>

definition last_turns :: "nat \<Rightarrow> turn list \<Rightarrow> turn list" where
  "last_turns n h = rev (take n (rev h))"

text \<open>An element after a change, compared with the element before it, for a dashboard with
  node \<open>k\<close>: it has kept its place in the tree, and outside the dashboard it is the same.\<close>

definition same_outside :: "nat \<Rightarrow> element \<Rightarrow> element \<Rightarrow> bool" where
  "same_outside k a b \<longleftrightarrow> ancestors b = ancestors a \<and> (\<not> within k a \<longrightarrow> b = a)"

text \<open>The position of the first element that satisfies \<open>P\<close>, as an answer of the selector
  engine.\<close>

fun position_of :: "('a \<Rightarrow> bool) \<Rightarrow> 'a list \<Rightarrow> query_result" where
  "position_of P [] = QueryNull"
| "position_of P (x # xs) =
     (if P x then QueryFound 0
      else case position_of P xs of QueryFound j \<Rightarrow> QueryFound (Suc j) | r \<Rightarrow> r)"

text \<open>A name that stands for itself between the double quotes of a selector: it has no
  double quote, no backslash, and none of the characters that the reading of a style sheet
  replaces (NUL, line feed, form feed, carriage return). For such a name every browser
  answers \<^verbatim>\<open>[data-section="name"]\<close> with the first element searched whose \<^verbatim>\<open>data-section\<close>
  is the name.\<close>

definition literal_name :: "string \<Rightarrow> bool" where
  "literal_name n \<longleftrightarrow>
     list_all (\<lambda>c. c \<notin> set [CHR 0x22, CHR 0x5C, CHR 0x00, CHR 0x0A, CHR 0x0C, CHR 0x0D]) n"

subsection \<open>Example states\<close>

text \<open>The state when the script has been loaded (its first twenty lines), on a page with
  the given elements, and a page with an authentication screen and the two dashboards.\<close>

definition initial :: "element list \<Rightarrow> state" where
  "initial d =
     \<lparr>authToken = None, currentUser = None, apiKey = [], isRecording = False,
      conversationHistory = [], sessionStartTime = None, questionCount = 0,
      correctionCount = 0, recognition = None, localStorage = (\<lambda>k. None), dom = d,
      windowScroll = (0, 0), inputValue = (\<lambda>i. []), styleDisplay = (\<lambda>i. []),
      recordBtnRecording = False, recordBtnText = ''Press to Speak'', voiceTranscript = [],
      chatMessages = [], hasSpeechSynthesis = True, speechQueue = [], toasts = [],
      generateCalls = [], loads = [], generated_papers = None,
      selected_generated_questions = None\<rparr>"

definition sample_page :: "element list" where
  "sample_page =
     [\<lparr>node = 0, el_id = ''authScreen'', classList = [''screen'', ''active''],
       data_section = None, ancestors = []\<rparr>,
      \<lparr>node = 1, el_id = ''studentDashboard'', classList = [''screen'', ''dashboard-container''],
       data_section = None, ancestors = []\<rparr>,
      \<lparr>node = 2, el_id = [], classList = [''nav-btn'', ''active''],
       data_section = Some ''assignments'', ancestors = [1]\<rparr>,
      \<lparr>node = 3, el_id = [], classList = [''nav-btn''],
       data_section = Some ''interview'', ancestors = [1]\<rparr>,
      \<lparr>node = 4, el_id = ''assignmentsSection'', classList = [''content-section'', ''active''],
       data_section = None, ancestors = [1]\<rparr>,
      \<lparr>node = 5, el_id = ''interviewSection'', classList = [''content-section''],
       data_section = None, ancestors = [1]\<rparr>,
      \<lparr>node = 6, el_id = ''teacherDashboard'', classList = [''screen'', ''dashboard-container''],
       data_section = None, ancestors = []\<rparr>,
      \<lparr>node = 7, el_id = [], classList = [''nav-btn'', ''active''],
       data_section = Some ''papers'', ancestors = [6]\<rparr>,
      \<lparr>node = 8, el_id = ''papersSection'', classList = [''content-section'', ''active''],
       data_section = None, ancestors = [6]\<rparr>,
      \<lparr>node = 9, el_id = ''gradeSection'', classList = [''content-section''],
       data_section = None, ancestors = [6]\<rparr>]"

text \<open>A student who has logged in and saved an API key, and the same with the recogniser
  of the browser at hand, idle and recording.\<close>

definition student_session :: state where
  "student_session =
     (initial sample_page)
       \<lparr>authToken := Some ''token-1'',
        currentUser := Some \<lparr>user_id = ''7'', username = ''asha'', user_type = ''student''\<rparr>,
        apiKey := ''key-1'',
        localStorage := [''authToken'' \<mapsto> ''token-1'', ''apiKey'' \<mapsto> ''key-1''],
        inputValue := (\<lambda>i. if i = ''interviewType'' then ''technical''
                            else if i = ''difficulty'' then ''medium''
                            else if i = ''practiceMode'' then ''voice'' else [])\<rparr>"

definition idle_recorder :: state where
  "idle_recorder = student_session\<lparr>recognition := Some \<lparr>started = False\<rparr>\<rparr>"

definition active_recorder :: state where
  "active_recorder =
     student_session\<lparr>isRecording := True, recordBtnRecording := True,
                     recordBtnText := ''Listening...'',
                     recognition := Some \<lparr>started = True\<rparr>\<rparr>"

text \<open>The student after the greeting and three exchanges.\<close>

definition practice_session :: state where
  "practice_session =
     student_session
       \<lparr>conversationHistory :=
          [user_turn ''Hello'', assistant_turn (Str ''Welcome. Why this role?''),
           user_turn ''I like to build things'', assistant_turn (Str ''Good. Name one project.''),
           user_turn ''A chat app'', assistant_turn (Str ''Correction: say more. What was hard?'')],
        questionCount := 4,
        correctionCount := 1\<rparr>"

text \<open>A recording flag that is still set although recognition has ended by itself (the
  script has no handler for the end of recognition).\<close>

definition stale_recorder :: state where
  "stale_recorder =
     student_session\<lparr>isRecording := True, recordBtnRecording := True,
                     recordBtnText := ''Listening...'',
                     recognition := Some \<lparr>started = False\<rparr>\<rparr>"

text \<open>A selector engine for the examples. It answers the attribute selector for a literal
  name and the id selector for an identifier of letters, digits, hyphens and underscores
  with a letter first, as every browser does; the examples use no other selector text, and
  this engine rejects every other text.\<close>

definition is_letter :: "char \<Rightarrow> bool" where
  "is_letter c \<longleftrightarrow> c \<in> set ''abcdefghijklmnopqrstuvwxyzABCDEFGHIJKLMNOPQRSTUVWXYZ''"

definition plain_ident :: "string \<Rightarrow> bool" where
  "plain_ident i \<longleftrightarrow>
     (case i of
        [] \<Rightarrow> False
      | c # cs \<Rightarrow> is_letter c
          \<and> list_all (\<lambda>x. is_letter x \<or> is_digit x \<or> x = CHR ''-'' \<or> x = CHR ''_'') cs)"

definition plain_engine :: selector_engine where
  "plain_engine sel d =
     (let n = take (length sel - 17) (drop 15 sel)
      in if sel = data_section_selector n \<and> literal_name n
         then position_of (has_data_section n) d
         else (case sel of
                 [] \<Rightarrow> QueryThrows
               | c # i \<Rightarrow> if c = CHR ''#'' \<and> plain_ident i then position_of (has_id i) d
                          else QueryThrows))"

text \<open>A generated paper with a heading and three questions, and a teacher's state that holds
  it under the id \<open>p1\<close>.\<close>

definition sample_paper :: string where
  "sample_paper =
     ''===QUESTION PAPER==='' @ [CHR 0x0A]
     @ ''1. Explain what a closure is in JavaScript.'' @ [CHR 0x0A]
     @ ''2. Describe the phases of the event loop.'' @ [CHR 0x0A, CHR 0x0A]
     @ ''What is a promise, and how is it settled?  '' @ [CHR 0x0A]
     @ ''===END PAPER==='' @ [CHR 0x0A] @ ''Answer key: not included''"

definition teacher_session :: "string \<Rightarrow> state" where
  "teacher_session numQuestions =
     (initial sample_page)
       \<lparr>generated_papers := Some [''p1'' \<mapsto> sample_paper],
        inputValue := (\<lambda>i. if i = ''numQuestions'' then numQuestions else [])\<rparr>"

section \<open>Properties\<close>

subsection \<open>escapeHtml\<close>

lemma replacement_in_entities: "escapeClass c \<Longrightarrow> replacement c \<in> set entities"
  by (auto simp: escapeClass_def replacement_def entityMap_def entities_def)

lemma entity_chars:
  "e \<in> set entities \<Longrightarrow> x \<in> set e \<Longrightarrow> \<not> escapeClass x \<or> x = CHR ''&''"
  by (auto simp: entities_def escapeClass_def)

lemma escapeHtml_append: "escapeHtml (a @ b) = escapeHtml a @ escapeHtml b"
  by (induction a) auto

lemma escapeHtml_chars:
  "x \<in> set (escapeHtml s) \<Longrightarrow> escapeClass x \<Longrightarrow> x = CHR ''&''"
proof (induction s)
  case Nil
  then show ?case by simp
next
  case (Cons c cs)
  show ?case
  proof (cases "x \<in> set (escapeHtml cs)")
    case True
    with Cons show ?thesis by simp
  next
    case False
    with Cons.prems have "escapeClass c" and "x \<in> set (replacement c)"
      by (auto split: if_splits)
    with Cons.prems(2) show ?thesis
      using entity_chars replacement_in_entities by blast
  qed
qed

lemma entity_amp_first:
  "e \<in> set entities \<Longrightarrow> i < length e \<Longrightarrow> e ! i = CHR ''&'' \<Longrightarrow> i = 0"
  by (auto simp: entities_def nth_Cons' split: if_splits)

lemma amp_starts_entity:
  "i < length (escapeHtml s) \<Longrightarrow> escapeHtml s ! i = CHR ''&'' \<Longrightarrow>
   \<exists>e \<in> set entities. prefix e (drop i (escapeHtml s))"
proof (induction s arbitrary: i)
  case Nil
  then show ?case by simp
next
  case (Cons c cs)
  define p where "p = (if escapeClass c then replacement c else [c])"
  have out: "escapeHtml (c # cs) = p @ escapeHtml cs" by (simp add: p_def)
  show ?case
  proof (cases "i < length p")
    case True
    with Cons.prems have pi: "p ! i = CHR ''&''" unfolding out by (simp add: nth_append)
    have cls: "escapeClass c"
    proof (rule ccontr)
      assume "\<not> escapeClass c"
      with True pi have "c = CHR ''&''" by (simp add: p_def)
      with \<open>\<not> escapeClass c\<close> show False by (simp add: escapeClass_def)
    qed
    then have pe: "p \<in> set entities" by (simp add: p_def replacement_in_entities)
    with True pi have "i = 0" by (rule entity_amp_first[rotated -1, rotated -1])
    then show ?thesis using pe unfolding out by (auto intro!: bexI[of _ p])
  next
    case False
    with Cons.prems have "i - length p < length (escapeHtml cs)"
      and "escapeHtml cs ! (i - length p) = CHR ''&''"
      unfolding out by (auto simp: nth_append)
    from Cons.IH[OF this] False show ?thesis unfolding out by simp
  qed
qed

lemma escapeHtml_keeps: "\<not> escapeClass c \<Longrightarrow> c \<in> set s \<Longrightarrow> c \<in> set (escapeHtml s)"
  by (induction s) auto

lemma escapeHtml_concat:
  "escapeHtml s = concat (map (\<lambda>c. if escapeClass c then replacement c else [c]) s)"
  by (induction s) auto

text \<open>
  C9: \<^const>\<open>escapeHtml\<close> replaces each ampersand, less-than sign, double quote, single quote,
  backtick, equals sign and slash by its entity (\<^const>\<open>entities\<close>, in this order) and copies
  every other character. The output holds none of the seven characters raw: the six other
  than the ampersand do not occur in it at all, and an ampersand occurs only as the first
  character of one of the seven entities. A greater-than sign of the input is in the
  output as it is, although the table has an entity for it.
\<close>

theorem escapeHtml_replaces_class:
  "escapeHtml s = concat (map (\<lambda>c. if escapeClass c then replacement c else [c]) s)
   \<and> map replacement [CHR ''&'', CHR ''<'', CHR 0x22, CHR 0x27, CHR 0x60, CHR ''='', CHR ''/'']
       = entities
   \<and> (\<forall>c. escapeClass c \<longleftrightarrow>
            c \<in> set [CHR ''&'', CHR ''<'', CHR 0x22, CHR 0x27, CHR 0x60, CHR ''='', CHR ''/''])
   \<and> (\<forall>x \<in> set (escapeHtml s).
         x \<notin> {CHR ''<'', CHR 0x22, CHR 0x27, CHR 0x60, CHR ''='', CHR ''/''})
   \<and> (\<forall>i < length (escapeHtml s). escapeHtml s ! i = CHR ''&'' \<longrightarrow>
         (\<exists>e \<in> set entities. prefix e (drop i (escapeHtml s))))
   \<and> (CHR ''>'' \<in> set s \<longrightarrow> CHR ''>'' \<in> set (escapeHtml s))"
proof (intro conjI)
  show "escapeHtml s = concat (map (\<lambda>c. if escapeClass c then replacement c else [c]) s)"
    by (rule escapeHtml_concat)
  show "map replacement [CHR ''&'', CHR ''<'', CHR 0x22, CHR 0x27, CHR 0x60, CHR ''='', CHR ''/'']
          = entities"
    by (simp add: replacement_def entityMap_def entities_def)
  show "\<forall>c. escapeClass c \<longleftrightarrow>
            c \<in> set [CHR ''&'', CHR ''<'', CHR 0x22, CHR 0x27, CHR 0x60, CHR ''='', CHR ''/'']"
    by (auto simp: escapeClass_def)
  show "\<forall>x \<in> set (escapeHtml s).
          x \<notin> {CHR ''<'', CHR 0x22, CHR 0x27, CHR 0x60, CHR ''='', CHR ''/''}"
  proof
    fix x assume "x \<in> set (escapeHtml s)"
    then have "escapeClass x \<Longrightarrow> x = CHR ''&''" by (rule escapeHtml_chars)
    then show "x \<notin> {CHR ''<'', CHR 0x22, CHR 0x27, CHR 0x60, CHR ''='', CHR ''/''}"
      by (auto simp: escapeClass_def)
  qed
  show "\<forall>i < length (escapeHtml s). escapeHtml s ! i = CHR ''&'' \<longrightarrow>
          (\<exists>e \<in> set entities. prefix e (drop i (escapeHtml s)))"
    using amp_starts_entity by blast
  show "CHR ''>'' \<in> set s \<longrightarrow> CHR ''>'' \<in> set (escapeHtml s)"
    using escapeHtml_keeps[of "CHR ''>''" s] by (simp add: escapeClass_def)
qed

theorem escapeHtml_replaces_class_witness:
  "escapeHtml ''&>'' = ''&amp;>''
   \<and> CHR ''>'' \<in> set ''&>'' \<and> CHR ''>'' \<in> set (escapeHtml ''&>'')
   \<and> 0 < length (escapeHtml ''&>'') \<and> escapeHtml ''&>'' ! 0 = CHR ''&''
   \<and> (\<exists>e \<in> set entities. prefix e (drop 0 (escapeHtml ''&>'')))"
proof -
  have out: "escapeHtml ''&>'' = ''&amp;>''"
    by (simp add: escapeClass_def replacement_def entityMap_def)
  have "0 < length (escapeHtml ''&>'')" and "escapeHtml ''&>'' ! 0 = CHR ''&''"
    unfolding out by simp_all
  with escapeHtml_replaces_class[of "''&>''"]
  have "\<exists>e \<in> set entities. prefix e (drop 0 (escapeHtml ''&>''))"
    by blast
  moreover from escapeHtml_replaces_class[of "''&>''"]
  have "CHR ''>'' \<in> set (escapeHtml ''&>'')"
    by simp
  ultimately show ?thesis unfolding out by simp
qed

subsection \<open>Logging out\<close>

lemma showScreen_session:
  "authToken (showScreen i ok s) = authToken s"
  "currentUser (showScreen i ok s) = currentUser s"
  "apiKey (showScreen i ok s) = apiKey s"
  "localStorage (showScreen i ok s) = localStorage s"
  by (simp_all add: showScreen_def scrollToTop_def Let_def split: option.split)

lemma checkAuth_no_token:
  "localStorage s ''authToken'' = None \<Longrightarrow> checkAuth v ok s = showScreen ''authScreen'' ok s"
  by (simp add: checkAuth_def)

text \<open>
  C6, as stated: after \<^const>\<open>handleLogout\<close> the API key held in memory is cleared.
  The student's key is still there after the logout.
\<close>

theorem handleLogout_apiKey_counterexample:
  "apiKey student_session = ''key-1''
   \<and> apiKey (handleLogout VerifyFailed True student_session) = ''key-1''"
  by (simp add: handleLogout_def showToast_def checkAuth_no_token showScreen_session
        student_session_def initial_def)

text \<open>
  C6, amended: after \<^const>\<open>handleLogout\<close> the token and the user are null and the stored token
  is removed; the API key in memory is what it was before, as is the API key in the
  browser's storage.
\<close>

theorem handleLogout_clears_token_and_user:
  "authToken (handleLogout v ok s) = None
   \<and> currentUser (handleLogout v ok s) = None
   \<and> localStorage (handleLogout v ok s) ''authToken'' = None
   \<and> apiKey (handleLogout v ok s) = apiKey s
   \<and> localStorage (handleLogout v ok s) ''apiKey'' = localStorage s ''apiKey''"
  by (simp add: handleLogout_def showToast_def checkAuth_no_token showScreen_session)

subsection \<open>The recording controller\<close>

lemma stopRecording_Idle_noop: "Idle s \<Longrightarrow> stopRecording s = s"
  by (auto simp: Idle_def stopRecording_def recognition_stop_def Let_def split: option.splits)

lemma stopRecording_idem: "stopRecording (stopRecording s) = stopRecording s"
  by (auto simp: stopRecording_def recognition_stop_def Let_def split: option.splits)

lemma Idle_stopRecording: "Idle (stopRecording s)"
  by (auto simp: Idle_def stopRecording_def recognition_stop_def Let_def split: option.splits)

lemma startRecording_Active: "Active s \<Longrightarrow> Idle (startRecording s)"
  by (auto simp: Active_def Idle_def startRecording_def stopRecording_def
        recognition_start_def recognition_stop_def Let_def split: option.splits)

lemma startRecording_Idle: "Idle s \<Longrightarrow> recognition s \<noteq> None \<Longrightarrow> Active (startRecording s)"
  by (auto simp: Active_def Idle_def startRecording_def recognition_start_def Let_def
        split: option.splits)

lemma Active_active_recorder: "Active active_recorder"
  by (simp add: Active_def active_recorder_def)

lemma Idle_idle_recorder: "Idle idle_recorder"
  by (simp add: Idle_def idle_recorder_def student_session_def initial_def)

text \<open>
  C3, as stated: \<^const>\<open>startRecording\<close> on a controller that is Active does nothing and
  leaves it Active. It calls \<^verbatim>\<open>recognition.start()\<close> again, the recogniser raises, and
  the handler of that error stops the recording.
\<close>

theorem startRecording_active_counterexample:
  "Active active_recorder \<and> \<not> isRecording (startRecording active_recorder)
   \<and> recognition (startRecording active_recorder) = Some \<lparr>started = False\<rparr>"
  by (simp add: Active_def active_recorder_def startRecording_def stopRecording_def
        recognition_start_def recognition_stop_def)

lemma stale_recorder_recording:
  "isRecording stale_recorder" "\<not> Active stale_recorder" "\<not> Idle stale_recorder"
  by (simp_all add: stale_recorder_def Active_def Idle_def)

text \<open>
  C3, amended: \<^const>\<open>stopRecording\<close> on a controller that is Idle changes nothing, and it is
  idempotent and always ends Idle. \<^const>\<open>startRecording\<close> has no guard of its own: the guard
  is \<^const>\<open>toggleRecording\<close>, which calls \<^const>\<open>stopRecording\<close> whenever \<open>isRecording\<close> is set and
  \<^const>\<open>startRecording\<close> only when it is not. \<^const>\<open>startRecording\<close> called on an Active
  controller starts the recogniser a second time, and the error this raises ends the
  recording: the controller is Idle afterwards.
\<close>

theorem recording_guard_is_toggle:
  "(Idle s \<longrightarrow> stopRecording s = s)
   \<and> stopRecording (stopRecording s) = stopRecording s
   \<and> Idle (stopRecording s)
   \<and> (isRecording s \<longrightarrow> toggleRecording s = stopRecording s)
   \<and> (\<not> isRecording s \<longrightarrow> toggleRecording s = startRecording s)
   \<and> (Active s \<longrightarrow> toggleRecording s = stopRecording s)
   \<and> (Idle s \<longrightarrow> toggleRecording s = startRecording s)
   \<and> (Active s \<longrightarrow> Idle (startRecording s))"
proof (intro conjI impI)
  show "stopRecording (stopRecording s) = stopRecording s" by (rule stopRecording_idem)
  show "Idle (stopRecording s)" by (rule Idle_stopRecording)
  show "stopRecording s = s" if "Idle s" using that by (rule stopRecording_Idle_noop)
  show "toggleRecording s = stopRecording s" if "isRecording s"
    using that by (simp add: toggleRecording_def)
  show "toggleRecording s = startRecording s" if "\<not> isRecording s"
    using that by (simp add: toggleRecording_def)
  show "toggleRecording s = stopRecording s" if "Active s"
    using that by (simp add: toggleRecording_def Active_def)
  show "toggleRecording s = startRecording s" if "Idle s"
    using that by (simp add: toggleRecording_def Idle_def)
  show "Idle (startRecording s)" if "Active s" using that by (rule startRecording_Active)
qed

theorem recording_guard_is_toggle_witness:
  "Idle idle_recorder \<and> stopRecording idle_recorder = idle_recorder
   \<and> toggleRecording idle_recorder = startRecording idle_recorder
   \<and> Active (toggleRecording idle_recorder)
   \<and> Active active_recorder
   \<and> toggleRecording active_recorder = stopRecording active_recorder
   \<and> Idle (startRecording active_recorder)
   \<and> isRecording stale_recorder
   \<and> toggleRecording stale_recorder = stopRecording stale_recorder
   \<and> Idle (toggleRecording stale_recorder)
   \<and> Active (startRecording stale_recorder)"
proof -
  note i = recording_guard_is_toggle[of idle_recorder]
  note a = recording_guard_is_toggle[of active_recorder]
  note t = recording_guard_is_toggle[of stale_recorder]
  have 1: "toggleRecording idle_recorder = startRecording idle_recorder"
    and 2: "stopRecording idle_recorder = idle_recorder"
    using i Idle_idle_recorder by blast+
  have 3: "Active (startRecording idle_recorder)"
    using Idle_idle_recorder by (rule startRecording_Idle) (simp add: idle_recorder_def)
  have 4: "toggleRecording active_recorder = stopRecording active_recorder"
    and 5: "Idle (startRecording active_recorder)"
    using a Active_active_recorder by blast+
  have 6: "toggleRecording stale_recorder = stopRecording stale_recorder"
    using t stale_recorder_recording(1) by blast
  have 7: "Idle (stopRecording stale_recorder)" using t by blast
  have 8: "Active (startRecording stale_recorder)"
    by (simp add: stale_recorder_def Active_def startRecording_def recognition_start_def)
  from 1 2 3 4 5 6 7 8 Idle_idle_recorder Active_active_recorder stale_recorder_recording(1)
  show ?thesis by simp
qed

subsection \<open>Navigation\<close>

lemma has_class_remove [simp]:
  "has_class c (classList_remove a e) \<longleftrightarrow> c \<noteq> a \<and> has_class c e"
  by (auto simp: has_class_def classList_remove_def)

lemma has_class_add [simp]:
  "has_class c (classList_add a e) \<longleftrightarrow> c = a \<or> has_class c e"
  by (auto simp: has_class_def classList_add_def)

lemma element_fields_remove [simp]:
  "el_id (classList_remove a e) = el_id e"
  "data_section (classList_remove a e) = data_section e"
  "ancestors (classList_remove a e) = ancestors e"
  "node (classList_remove a e) = node e"
  by (simp_all add: classList_remove_def)

lemma element_fields_add [simp]:
  "el_id (classList_add a e) = el_id e"
  "data_section (classList_add a e) = data_section e"
  "ancestors (classList_add a e) = ancestors e"
  "node (classList_add a e) = node e"
  by (simp_all add: classList_add_def)

lemma has_id_remove [simp]: "has_id i (classList_remove a e) = has_id i e"
  by (simp add: has_id_def)

lemma has_id_add [simp]: "has_id i (classList_add a e) = has_id i e"
  by (simp add: has_id_def)

lemma getElementById_deactivate:
  "getElementById i (deactivate_all sc cls d) = None \<longleftrightarrow> getElementById i d = None"
  by (induction d) (auto simp: getElementById_def deactivate_all_def)

lemma getElementById_deactivate_None:
  "getElementById i d = None \<Longrightarrow> getElementById i (deactivate_all sc cls d) = None"
  by (simp add: getElementById_deactivate)

lemma deactivate_all_inactive:
  "e \<in> set (deactivate_all (\<lambda>e. True) cls d) \<Longrightarrow> has_class cls e \<Longrightarrow> \<not> has_class ''active'' e"
  by (auto simp: deactivate_all_def split: if_splits)

lemma deactivate_all_keeps_inactive:
  "e \<in> set (deactivate_all sc cls d) \<Longrightarrow> has_class c e \<Longrightarrow> has_class ''active'' e \<Longrightarrow>
   \<exists>e' \<in> set d. has_class c e' \<and> has_class ''active'' e'"
  by (auto simp: deactivate_all_def split: if_splits)

lemma active_of_deactivate: "active_of cls (deactivate_all (\<lambda>e. True) cls d) = []"
  by (auto simp: active_of_def filter_empty_conv dest: deactivate_all_inactive)

lemma set_update_first:
  "y \<in> set (update_first P f xs) \<Longrightarrow> y \<in> set xs \<or> (\<exists>x \<in> set xs. P x \<and> y = f x)"
  by (induction xs) (auto split: if_splits)

lemma showScreen_missing:
  "getElementById i (dom s) = None \<Longrightarrow>
   showScreen i ok s = s\<lparr>dom := deactivate_all (\<lambda>e. True) ''screen'' (dom s)\<rparr>"
  by (simp add: showScreen_def getElementById_deactivate_None Let_def)

lemma position_of_not_QueryThrows [simp]: "position_of P xs \<noteq> QueryThrows"
  by (induction xs) (auto split: query_result.splits)

lemma update_found_position:
  "position_of P xs = QueryFound j \<Longrightarrow> update_found (\<lambda>e. True) j f xs = update_first P f xs"
  by (induction xs arbitrary: j) (auto split: if_splits query_result.splits)

lemma update_first_position_null:
  "position_of P xs = QueryNull \<Longrightarrow> update_first P f xs = xs"
  by (induction xs) (auto split: if_splits query_result.splits)

lemma activate_found_position:
  "activate_found (\<lambda>e. True) (position_of P d) d = update_first P (classList_add ''active'') d"
  by (cases "position_of P d")
     (simp_all add: activate_found_def update_found_position update_first_position_null)

text \<open>The engine of the examples answers a literal name as described.\<close>

lemma plain_engine_literal:
  "literal_name n \<Longrightarrow>
   plain_engine (data_section_selector n) d = position_of (has_data_section n) d"
  by (simp add: plain_engine_def data_section_selector_def Let_def)

lemma sections_off_inactive:
  assumes "x \<in> set (deactivate_all (\<lambda>e. True) ''nav-btn''
                      (deactivate_all (\<lambda>e. True) ''content-section'' d))"
    and "has_class ''content-section'' x \<or> has_class ''nav-btn'' x"
  shows "\<not> has_class ''active'' x"
proof
  assume act: "has_class ''active'' x"
  from assms(2) show False
  proof
    assume "has_class ''nav-btn'' x"
    with assms(1) act show False using deactivate_all_inactive by blast
  next
    assume "has_class ''content-section'' x"
    with assms(1) act obtain x' where
      "x' \<in> set (deactivate_all (\<lambda>e. True) ''content-section'' d)"
      "has_class ''content-section'' x'" "has_class ''active'' x'"
      using deactivate_all_keeps_inactive by blast
    then show False using deactivate_all_inactive by blast
  qed
qed

lemma switchSection_missing:
  assumes "getElementById i (dom s) = None"
  shows "dom (snd (switchSection i q ok s)) =
           activate_found (\<lambda>e. True)
             (q (data_section_selector (strip_Section i))
                (deactivate_all (\<lambda>e. True) ''nav-btn''
                   (deactivate_all (\<lambda>e. True) ''content-section'' (dom s))))
             (deactivate_all (\<lambda>e. True) ''nav-btn''
                (deactivate_all (\<lambda>e. True) ''content-section'' (dom s)))"
    and "fst (switchSection i q ok s) = Returned \<longleftrightarrow>
           q (data_section_selector (strip_Section i))
             (deactivate_all (\<lambda>e. True) ''nav-btn''
                (deactivate_all (\<lambda>e. True) ''content-section'' (dom s))) \<noteq> QueryThrows"
  using assms
  by (simp_all add: switchSection_def getElementById_deactivate_None Let_def scrollToTop_def
        activate_found_def split: query_result.split)

lemma update_first_only_target:
  assumes "\<forall>x \<in> set d. A x \<longrightarrow> \<not> has_class ''active'' x"
    and "e \<in> set (update_first (has_data_section n) (classList_add ''active'') d)"
    and "A e" and "has_class ''active'' e"
  shows "data_section e = Some n"
proof -
  from set_update_first[OF assms(2)]
  show ?thesis
  proof (elim disjE bexE conjE)
    assume "e \<in> set d"
    with assms(1,3,4) show ?thesis by blast
  next
    fix x
    assume "has_data_section n x" and "e = classList_add ''active'' x"
    then show ?thesis by (simp add: has_data_section_def)
  qed
qed

text \<open>
  C4, as stated: with an id that no element has, the screens and sections that
  are active stay as they are. On the sample page the authentication screen is active, and
  no screen is after \<^const>\<open>showScreen\<close> with an unknown id; two sections are active, and none
  is after \<^const>\<open>switchSection\<close> with an unknown id.
\<close>

theorem navigation_missing_target_counterexample:
  "getElementById ''profileScreen'' (dom (initial sample_page)) = None
   \<and> active_of ''screen'' (dom (initial sample_page)) = [''authScreen'']
   \<and> active_of ''screen'' (dom (showScreen ''profileScreen'' True (initial sample_page))) = []
   \<and> getElementById ''profileSection'' (dom (initial sample_page)) = None
   \<and> active_of ''content-section'' (dom (initial sample_page))
       = [''assignmentsSection'', ''papersSection'']
   \<and> active_of ''content-section''
        (dom (snd (switchSection ''profileSection'' plain_engine True (initial sample_page))))
       = []"
  by code_simp

text \<open>
  C4, amended: with an id that no element has, \<^const>\<open>showScreen\<close> raises nothing and activates
  no screen, but it is not without effect: the deactivation comes before the lookup, so no
  screen is active afterwards. \<^const>\<open>switchSection\<close> with such an id has deactivated every
  content section and every navigation button, activates no section, and then activates
  the element that \<^verbatim>\<open>querySelector\<close> finds for \<^verbatim>\<open>[data-section="name"]\<close>, if any; it raises
  exactly when \<^verbatim>\<open>querySelector\<close> rejects that selector text. Where the answer is the first
  element whose \<^verbatim>\<open>data-section\<close> is the name (the answer for every literal name), it does
  not raise, that element is activated, and no other content section or navigation button
  is active afterwards.
\<close>

theorem navigation_missing_target:
  "getElementById i (dom s) = None \<longrightarrow>
     showScreen i ok s = s\<lparr>dom := deactivate_all (\<lambda>e. True) ''screen'' (dom s)\<rparr>
     \<and> active_of ''screen'' (dom (showScreen i ok s)) = []
     \<and> (let d = deactivate_all (\<lambda>e. True) ''nav-btn''
                  (deactivate_all (\<lambda>e. True) ''content-section'' (dom s));
             q = querySelector (data_section_selector (strip_Section i)) d
         in (\<forall>e \<in> set d. has_class ''content-section'' e \<or> has_class ''nav-btn'' e
                 \<longrightarrow> \<not> has_class ''active'' e)
            \<and> (fst (switchSection i querySelector ok s) = Returned \<longleftrightarrow> q \<noteq> QueryThrows)
            \<and> dom (snd (switchSection i querySelector ok s)) = activate_found (\<lambda>e. True) q d
            \<and> (q = position_of (has_data_section (strip_Section i)) d \<longrightarrow>
                 fst (switchSection i querySelector ok s) = Returned
                 \<and> dom (snd (switchSection i querySelector ok s))
                     = update_first (has_data_section (strip_Section i))
                         (classList_add ''active'') d
                 \<and> (\<forall>e \<in> set (dom (snd (switchSection i querySelector ok s))).
                       (has_class ''content-section'' e \<or> has_class ''nav-btn'' e)
                       \<and> has_class ''active'' e
                       \<longrightarrow> data_section e = Some (strip_Section i))))"
proof (intro impI)
  assume none: "getElementById i (dom s) = None"
  let ?d = "deactivate_all (\<lambda>e. True) ''nav-btn''
              (deactivate_all (\<lambda>e. True) ''content-section'' (dom s))"
  let ?q = "querySelector (data_section_selector (strip_Section i)) ?d"
  let ?n = "strip_Section i"
  have a: "showScreen i ok s = s\<lparr>dom := deactivate_all (\<lambda>e. True) ''screen'' (dom s)\<rparr>"
    using none by (rule showScreen_missing)
  then have b: "active_of ''screen'' (dom (showScreen i ok s)) = []"
    by (simp add: active_of_deactivate)
  have off: "\<forall>e \<in> set ?d. has_class ''content-section'' e \<or> has_class ''nav-btn'' e
                 \<longrightarrow> \<not> has_class ''active'' e"
    using sections_off_inactive by blast
  have c: "fst (switchSection i querySelector ok s) = Returned \<longleftrightarrow> ?q \<noteq> QueryThrows"
    using none by (rule switchSection_missing(2))
  have e: "dom (snd (switchSection i querySelector ok s)) = activate_found (\<lambda>e. True) ?q ?d"
    using none by (rule switchSection_missing(1))
  have f: "fst (switchSection i querySelector ok s) = Returned
           \<and> dom (snd (switchSection i querySelector ok s))
               = update_first (has_data_section ?n) (classList_add ''active'') ?d
           \<and> (\<forall>e \<in> set (dom (snd (switchSection i querySelector ok s))).
                 (has_class ''content-section'' e \<or> has_class ''nav-btn'' e)
                 \<and> has_class ''active'' e
                 \<longrightarrow> data_section e = Some ?n)"
    if q: "?q = position_of (has_data_section ?n) ?d"
  proof (intro conjI ballI impI)
    show "fst (switchSection i querySelector ok s) = Returned"
      unfolding c q by simp
    show g: "dom (snd (switchSection i querySelector ok s))
               = update_first (has_data_section ?n) (classList_add ''active'') ?d"
      unfolding e q by (rule activate_found_position)
    show "data_section x = Some ?n"
      if "x \<in> set (dom (snd (switchSection i querySelector ok s)))"
        and "(has_class ''content-section'' x \<or> has_class ''nav-btn'' x)
             \<and> has_class ''active'' x" for x
    proof (rule update_first_only_target[where A = "\<lambda>x. has_class ''content-section'' x
                                                  \<or> has_class ''nav-btn'' x" and d = ?d])
      show "\<forall>x \<in> set ?d. has_class ''content-section'' x \<or> has_class ''nav-btn'' x
               \<longrightarrow> \<not> has_class ''active'' x" by (rule off)
      show "x \<in> set (update_first (has_data_section ?n) (classList_add ''active'') ?d)"
        using that(1) unfolding g .
      show "has_class ''content-section'' x \<or> has_class ''nav-btn'' x" using that(2) by simp
      show "has_class ''active'' x" using that(2) by simp
    qed
  qed
  show "showScreen i ok s = s\<lparr>dom := deactivate_all (\<lambda>e. True) ''screen'' (dom s)\<rparr>
     \<and> active_of ''screen'' (dom (showScreen i ok s)) = []
     \<and> (let d = ?d; q = querySelector (data_section_selector (strip_Section i)) d
         in (\<forall>e \<in> set d. has_class ''content-section'' e \<or> has_class ''nav-btn'' e
                 \<longrightarrow> \<not> has_class ''active'' e)
            \<and> (fst (switchSection i querySelector ok s) = Returned \<longleftrightarrow> q \<noteq> QueryThrows)
            \<and> dom (snd (switchSection i querySelector ok s)) = activate_found (\<lambda>e. True) q d
            \<and> (q = position_of (has_data_section (strip_Section i)) d \<longrightarrow>
                 fst (switchSection i querySelector ok s) = Returned
                 \<and> dom (snd (switchSection i querySelector ok s))
                     = update_first (has_data_section (strip_Section i))
                         (classList_add ''active'') d
                 \<and> (\<forall>e \<in> set (dom (snd (switchSection i querySelector ok s))).
                       (has_class ''content-section'' e \<or> has_class ''nav-btn'' e)
                       \<and> has_class ''active'' e
                       \<longrightarrow> data_section e = Some (strip_Section i))))"
    unfolding Let_def
    apply (intro conjI impI)
          apply (rule a)
         apply (rule b)
        apply (rule off)
       apply (rule c)
      apply (rule e)
     apply (rule f[THEN conjunct1], assumption)
    apply (rule f[THEN conjunct2, THEN conjunct1], assumption)
    apply (rule f[THEN conjunct2, THEN conjunct2], assumption)
    done
qed

lemma sample_interview_answer:
  "plain_engine (data_section_selector (strip_Section ''interview''))
     (deactivate_all (\<lambda>e. True) ''nav-btn''
        (deactivate_all (\<lambda>e. True) ''content-section'' (dom (initial sample_page))))
   = position_of (has_data_section (strip_Section ''interview''))
       (deactivate_all (\<lambda>e. True) ''nav-btn''
          (deactivate_all (\<lambda>e. True) ''content-section'' (dom (initial sample_page))))"
  by code_simp

lemma sample_interview_active:
  "map node (filter (has_class ''active'')
     (update_first (has_data_section (strip_Section ''interview'')) (classList_add ''active'')
        (deactivate_all (\<lambda>e. True) ''nav-btn''
           (deactivate_all (\<lambda>e. True) ''content-section'' (dom (initial sample_page))))))
   = [0, 3]"
  by code_simp

lemma sample_interview_missing:
  "getElementById ''interview'' (dom (initial sample_page)) = None"
  by code_simp

theorem navigation_missing_target_witness:
  "getElementById ''interview'' (dom (initial sample_page)) = None
   \<and> active_of ''screen'' (dom (showScreen ''interview'' True (initial sample_page))) = []
   \<and> fst (switchSection ''interview'' plain_engine True (initial sample_page)) = Returned
   \<and> map node (filter (has_class ''active'')
        (dom (snd (switchSection ''interview'' plain_engine True (initial sample_page)))))
       = [0, 3]"
proof -
  note t = navigation_missing_target[of "''interview''" "initial sample_page" True plain_engine,
      unfolded Let_def, THEN mp, OF sample_interview_missing]
  note u = t[THEN conjunct2, THEN conjunct2, THEN conjunct2, THEN conjunct2, THEN conjunct2,
      THEN mp, OF sample_interview_answer]
  have 1: "active_of ''screen'' (dom (showScreen ''interview'' True (initial sample_page))) = []"
    by (rule t[THEN conjunct2, THEN conjunct1])
  have 2: "fst (switchSection ''interview'' plain_engine True (initial sample_page)) = Returned"
    by (rule u[THEN conjunct1])
  have 3: "map node (filter (has_class ''active'')
        (dom (snd (switchSection ''interview'' plain_engine True (initial sample_page)))))
       = [0, 3]"
    unfolding u[THEN conjunct2, THEN conjunct1] by (rule sample_interview_active)
  from sample_interview_missing 1 2 3 show ?thesis by (intro conjI)
qed

lemma same_outside_trans:
  "same_outside k a b \<Longrightarrow> same_outside k b c \<Longrightarrow> same_outside k a c"
  by (auto simp: same_outside_def within_def)

lemma deactivate_all_scoped:
  "list_all2 (same_outside k) d (deactivate_all (within k) cls d)"
  by (induction d) (auto simp: deactivate_all_def same_outside_def)

lemma update_found_scoped:
  "list_all2 (same_outside k) d (update_found (within k) j (classList_add c) d)"
  by (induction d arbitrary: j) (auto simp: same_outside_def list_all2_refl split: nat.splits)

lemma activate_found_scoped:
  "list_all2 (same_outside k) d (activate_found (within k) r d)"
  by (cases r) (simp_all add: activate_found_def update_found_scoped list_all2_refl
      same_outside_def)

lemma list_all2_same_outside_trans:
  "list_all2 (same_outside k) a b \<Longrightarrow> list_all2 (same_outside k) b c \<Longrightarrow>
   list_all2 (same_outside k) a c"
  using list_all2_trans[of "same_outside k" "same_outside k" "same_outside k"]
    same_outside_trans by blast

lemma dom_section_loads [simp]: "dom (section_loads k sec s) = dom s"
  by (simp add: section_loads_def start_load_def Let_def)

lemma navClick_dom:
  assumes "closest_dashboard btn (dom s) = Some k"
  shows "list_all2 (same_outside k) (dom s) (dom (snd (navClick btn q s)))"
proof -
  let ?d1 = "deactivate_all (within k) ''content-section'' (dom s)"
  let ?d2 = "deactivate_all (within k) ''nav-btn'' ?d1"
  have 2: "list_all2 (same_outside k) (dom s) ?d2"
    using deactivate_all_scoped list_all2_same_outside_trans by blast
  then have 3: "list_all2 (same_outside k) (dom s) (activate_found (within k) r ?d2)" for r
    using activate_found_scoped list_all2_same_outside_trans by blast
  then have 4: "list_all2 (same_outside k) (dom s)
      (activate_found (within k) r' (activate_found (within k) r ?d2))" for r r'
    using activate_found_scoped list_all2_same_outside_trans by blast
  show ?thesis using assms 2 3 4
    by (simp add: navClick_def Let_def split: query_result.split)
qed

text \<open>The click handler of a navigation button keeps to its dashboard, whatever the
  selector engine answers: an element that is not inside the dashboard of the button is
  after the click what it was before. A button that is in no dashboard changes nothing.\<close>

lemma navClick_scoped:
  assumes "closest_dashboard btn (dom s) = Some k"
  shows "length (dom (snd (navClick btn q s))) = length (dom s)"
    and "i < length (dom s) \<Longrightarrow> \<not> within k (dom s ! i) \<Longrightarrow>
         dom (snd (navClick btn q s)) ! i = dom s ! i"
  using navClick_dom[OF assms]
  by (auto simp: list_all2_conv_all_nth same_outside_def)

lemma navClick_no_dashboard:
  "closest_dashboard btn (dom s) = None \<Longrightarrow> navClick btn q s = (Returned, s)"
  by (simp add: navClick_def)

text \<open>On the sample page, a click on the student's interview button activates the
  interview section and the button, and leaves the teacher's dashboard as it is.\<close>

lemma navClick_sample:
  "fst (navClick (sample_page ! 3) plain_engine (initial sample_page)) = Returned
   \<and> map node (filter (has_class ''active'')
        (dom (snd (navClick (sample_page ! 3) plain_engine (initial sample_page)))))
       = [0, 3, 5, 7, 8]"
  by code_simp

text \<open>
  C7: activating a section of the teacher dashboard leaves the sections of the student
  dashboard as they are. The click handler does so (\<open>navClick_scoped\<close>); \<^const>\<open>switchSection\<close>,
  by which \<^verbatim>\<open>viewSubmissions\<close> activates the grading section of the teacher dashboard, does
  not: on the sample page the student's assignments section is active before and inactive
  after.
\<close>

theorem switchSection_crosses_dashboards:
  "fst (switchSection ''gradeSection'' plain_engine True (initial sample_page)) = Returned
   \<and> active_of ''content-section'' (dom (initial sample_page))
       = [''assignmentsSection'', ''papersSection'']
   \<and> active_of ''content-section''
        (dom (snd (switchSection ''gradeSection'' plain_engine True (initial sample_page))))
       = [''gradeSection'']"
  by code_simp

subsection \<open>The conversational exchange\<close>

lemma callGeminiAPI_reply: "fst (callGeminiAPI r p s) = reply r"
  by (cases r rule: reply.cases) (simp_all add: callGeminiAPI_def Let_def)

lemma callGeminiAPI_state:
  "conversationHistory (snd (callGeminiAPI r p s)) = conversationHistory s"
  "questionCount (snd (callGeminiAPI r p s)) = questionCount s"
  "correctionCount (snd (callGeminiAPI r p s)) = correctionCount s"
  "styleDisplay (snd (callGeminiAPI r p s)) = styleDisplay s"
  "generateCalls (snd (callGeminiAPI r p s)) =
     generateCalls s @ [\<lparr>api_key = apiKey s, prompt = p, history = conversationHistory s\<rparr>]"
  by (cases r rule: reply.cases; simp add: callGeminiAPI_def Let_def showToast_def)+

lemma callGeminiAPI_toasts:
  "failed r \<Longrightarrow> \<exists>m. toasts (snd (callGeminiAPI r p s)) = toasts s @ [(m, ''error'')]"
  by (cases r rule: reply.cases) (simp_all add: callGeminiAPI_def Let_def showToast_def)

lemma present_state:
  "conversationHistory (present v s) = conversationHistory s"
  "questionCount (present v s) = questionCount s"
  "correctionCount (present v s) = correctionCount s"
  "generateCalls (present v s) = generateCalls s"
  "toasts (present v s) = toasts s"
  by (simp_all add: present_def speakText_def addTranscript_def addChatMessage_def)

lemma processUserResponse_history:
  "conversationHistory (snd (processUserResponse r m s)) =
     conversationHistory s @ [user_turn m, assistant_turn (reply r)]"
  by (cases "reply r")
     (simp_all add: processUserResponse_def Let_def case_prod_beta callGeminiAPI_reply
        callGeminiAPI_state present_state user_turn_def assistant_turn_def)

lemma processUserResponse_correctionCount:
  "correctionCount (snd (processUserResponse r m s)) =
     correctionCount s + (if is_correction (assistant_turn (reply r)) then 1 else 0)"
  by (cases "reply r")
     (simp_all add: processUserResponse_def Let_def case_prod_beta callGeminiAPI_reply
        callGeminiAPI_state present_state is_correction_def assistant_turn_def)

lemma processUserResponse_questionCount:
  "questionCount (snd (processUserResponse r m s)) =
     questionCount s + (if reply r = Undefined then 0 else 1)"
  by (cases "reply r")
     (simp_all add: processUserResponse_def Let_def case_prod_beta callGeminiAPI_reply
        callGeminiAPI_state present_state)

lemma processUserResponse_completion:
  "fst (processUserResponse r m s) = (if reply r = Undefined then Threw TypeError else Returned)"
  by (cases "reply r")
     (simp_all add: processUserResponse_def Let_def case_prod_beta callGeminiAPI_reply)

lemma processUserResponse_generateCalls:
  "generateCalls (snd (processUserResponse r m s)) =
     generateCalls s @
     [\<lparr>api_key = apiKey s,
       prompt = response_prompt (inputValue s ''interviewType'') (inputValue s ''difficulty'')
                  (conversationHistory s @ [user_turn m]) m,
       history = conversationHistory s @ [user_turn m]\<rparr>]"
  by (cases "reply r")
     (simp_all add: processUserResponse_def Let_def case_prod_beta callGeminiAPI_reply
        callGeminiAPI_state present_state user_turn_def)

lemma processUserResponse_toasts:
  assumes "failed r"
  shows "\<exists>t. toasts (snd (processUserResponse r m s)) = toasts s @ [(t, ''error'')]"
proof -
  let ?s1 = "s\<lparr>conversationHistory := conversationHistory s @ [user_turn m]\<rparr>"
  let ?p = "response_prompt (inputValue s ''interviewType'') (inputValue s ''difficulty'')
              (conversationHistory s @ [user_turn m]) m"
  from callGeminiAPI_toasts[OF assms, of ?p ?s1]
  obtain t where "toasts (snd (callGeminiAPI r ?p ?s1)) = toasts s @ [(t, ''error'')]"
    by auto
  moreover have "toasts (snd (processUserResponse r m s)) = toasts (snd (callGeminiAPI r ?p ?s1))"
    by (cases "reply r")
       (simp_all add: processUserResponse_def Let_def case_prod_beta callGeminiAPI_reply
          present_state user_turn_def)
  ultimately show ?thesis by auto
qed

lemma apology_lower: "\<not> includes_str (toLowerCase apology) ''correction:''"
  by code_simp

lemma failed_reply: "failed r \<Longrightarrow> reply r = Str apology"
  by (cases r rule: reply.cases) simp_all

lemma exchanges_history:
  "conversationHistory (exchanges xs s) = conversationHistory s @ turns_of xs"
  by (induction xs arbitrary: s) (auto simp: turns_of_def processUserResponse_history)

lemma not_correction_user [simp]: "\<not> is_correction (user_turn m)"
  by (simp add: is_correction_def user_turn_def)

lemma exchanges_correctionCount:
  "correctionCount (exchanges xs s) = correctionCount s + length (filter is_correction (turns_of xs))"
  by (induction xs arbitrary: s) (auto simp: turns_of_def processUserResponse_correctionCount)

lemma exchanges_questionCount:
  "questionCount (exchanges xs s) =
     questionCount s + length (filter (\<lambda>(m, r). reply r \<noteq> Undefined) xs)"
  by (induction xs arbitrary: s) (auto simp: processUserResponse_questionCount)

lemma length_turns_of: "length (turns_of xs) = 2 * length xs"
  by (induction xs) (auto simp: turns_of_def)

lemma sendInitialGreeting_state:
  "conversationHistory (sendInitialGreeting r s) = conversationHistory s"
  "correctionCount (sendInitialGreeting r s) = correctionCount s"
  "questionCount (sendInitialGreeting r s) = questionCount s + 1"
  "generateCalls (sendInitialGreeting r s) = generateCalls s @
     [\<lparr>api_key = apiKey s,
       prompt = greeting_prompt (inputValue s ''interviewType'') (inputValue s ''difficulty''),
       history = conversationHistory s\<rparr>]"
  by (simp_all add: sendInitialGreeting_def Let_def case_prod_beta callGeminiAPI_state present_state)

lemma startInterview_fresh:
  assumes "apiKey s \<noteq> []"
  shows "conversationHistory (startInterview now g ok s) = []"
    and "questionCount (startInterview now g ok s) = 1"
    and "correctionCount (startInterview now g ok s) = 0"
    and "generateCalls (startInterview now g ok s) = generateCalls s @
     [\<lparr>api_key = apiKey s,
       prompt = greeting_prompt (inputValue s ''interviewType'') (inputValue s ''difficulty''),
       history = []\<rparr>]"
  using assms
  by (simp_all add: startInterview_def Let_def sendInitialGreeting_state)

lemma startInterview_no_key:
  "apiKey s = [] \<Longrightarrow> startInterview now g ok s =
     showScreen ''apiSetup'' ok (showToast ''Please configure API key first'' ''error'' s)"
  by (simp add: startInterview_def)

lemma slice_last_turns: "slice (- 5) None h = last_turns 5 h"
proof -
  have "slice (- 5) None h = drop (length h - 5) h"
    by (auto simp: slice_def Let_def max_def nat_diff_distrib)
  also have "\<dots> = last_turns 5 h"
    by (simp add: last_turns_def take_rev)
  finally show ?thesis .
qed

lemma apiKey_student_session: "apiKey student_session = ''key-1''"
  by (simp add: student_session_def)

text \<open>
  C1, as stated: after the greeting the history is the one assistant turn with the
  returned text, and after \<open>N\<close> further exchanges it has \<open>2N + 1\<close> entries. The greeting's
  reply is shown and spoken, but not appended: the history is empty after the greeting and
  has two entries after one exchange.
\<close>

theorem greeting_not_recorded_counterexample:
  "conversationHistory
     (startInterview 0 (Responded True (JsonData None (Str ''Welcome. Tell me about yourself.'')))
        True student_session) = []
   \<and> length (conversationHistory
        (exchanges [(''I am a developer'', Responded True (JsonData None (Str ''Great job!'')))]
           (startInterview 0
              (Responded True (JsonData None (Str ''Welcome. Tell me about yourself.'')))
              True student_session))) = 2"
  by (simp add: exchanges_history startInterview_fresh length_turns_of apiKey_student_session
        del: exchanges.simps)

text \<open>
  C1, amended: when an API key is set, \<^const>\<open>startInterview\<close> sends one request, with the
  greeting prompt and an empty history, and once the greeting is done the history is empty,
  \<open>questionCount\<close> is 1 and \<open>correctionCount\<close> is 0; after \<open>N\<close> exchanges driven by
  \<^const>\<open>processUserResponse\<close> the history has \<open>2N\<close> entries.
\<close>

theorem history_length_after_start:
  "apiKey s \<noteq> [] \<longrightarrow>
     conversationHistory (startInterview now g ok s) = []
     \<and> questionCount (startInterview now g ok s) = 1
     \<and> correctionCount (startInterview now g ok s) = 0
     \<and> generateCalls (startInterview now g ok s) = generateCalls s @
          [\<lparr>api_key = apiKey s,
            prompt = greeting_prompt (inputValue s ''interviewType'') (inputValue s ''difficulty''),
            history = []\<rparr>]
     \<and> length (conversationHistory (exchanges xs (startInterview now g ok s))) = 2 * length xs"
  by (simp add: exchanges_history startInterview_fresh length_turns_of)

theorem history_length_after_start_witness:
  "apiKey student_session \<noteq> []
   \<and> conversationHistory (startInterview 0 (Rejected ''Failed to fetch'') True student_session) = []
   \<and> questionCount (startInterview 0 (Rejected ''Failed to fetch'') True student_session) = 1
   \<and> correctionCount (startInterview 0 (Rejected ''Failed to fetch'') True student_session) = 0
   \<and> length (conversationHistory
        (exchanges [(''Hello'', Rejected ''Failed to fetch''),
                    (''Hello again'', Responded True (JsonData None (Str ''Great job!'')))]
           (startInterview 0 (Rejected ''Failed to fetch'') True student_session))) = 4"
  using history_length_after_start[of student_session 0 "Rejected ''Failed to fetch''" True
      "[(''Hello'', Rejected ''Failed to fetch''),
        (''Hello again'', Responded True (JsonData None (Str ''Great job!'')))]"]
  by (simp add: apiKey_student_session del: exchanges.simps)

text \<open>
  C2: when the fetch rejects or the response has no success status, \<^const>\<open>processUserResponse\<close>
  returns without raising, has appended the user's turn and exactly one assistant turn,
  which is the apology, has incremented \<open>questionCount\<close> by one (and left \<open>correctionCount\<close>),
  and has shown one error notice.
\<close>

theorem failed_call_gives_apology:
  "failed r \<longrightarrow>
     fst (processUserResponse r m s) = Returned
     \<and> conversationHistory (snd (processUserResponse r m s)) =
         conversationHistory s @ [user_turn m, assistant_turn (Str apology)]
     \<and> questionCount (snd (processUserResponse r m s)) = questionCount s + 1
     \<and> correctionCount (snd (processUserResponse r m s)) = correctionCount s
     \<and> (\<exists>t. toasts (snd (processUserResponse r m s)) = toasts s @ [(t, ''error'')])"
proof (intro impI conjI)
  assume f: "failed r"
  then have rep: "reply r = Str apology" by (rule failed_reply)
  show "fst (processUserResponse r m s) = Returned"
    by (simp add: processUserResponse_completion rep)
  show "conversationHistory (snd (processUserResponse r m s)) =
         conversationHistory s @ [user_turn m, assistant_turn (Str apology)]"
    by (simp add: processUserResponse_history rep)
  show "questionCount (snd (processUserResponse r m s)) = questionCount s + 1"
    by (simp add: processUserResponse_questionCount rep)
  show "correctionCount (snd (processUserResponse r m s)) = correctionCount s"
    by (simp add: processUserResponse_correctionCount rep is_correction_def assistant_turn_def
          apology_lower)
  show "\<exists>t. toasts (snd (processUserResponse r m s)) = toasts s @ [(t, ''error'')]"
    using f by (rule processUserResponse_toasts)
qed

theorem failed_call_gives_apology_witness:
  "failed (Responded False (JsonData (Some ''Internal Server Error'') Undefined))
   \<and> fst (processUserResponse (Responded False (JsonData (Some ''Internal Server Error'') Undefined))
           ''I led a team of five'' student_session) = Returned
   \<and> conversationHistory
        (snd (processUserResponse (Responded False (JsonData (Some ''Internal Server Error'') Undefined))
                ''I led a team of five'' student_session)) =
       [user_turn ''I led a team of five'', assistant_turn (Str apology)]
   \<and> questionCount
        (snd (processUserResponse (Responded False (JsonData (Some ''Internal Server Error'') Undefined))
                ''I led a team of five'' student_session)) = 1
   \<and> failed (Rejected ''Failed to fetch'')
   \<and> fst (processUserResponse (Rejected ''Failed to fetch'') ''Hello'' student_session) = Returned
   \<and> questionCount (snd (processUserResponse (Rejected ''Failed to fetch'') ''Hello'' student_session)) = 1"
  using failed_call_gives_apology[of "Responded False (JsonData (Some ''Internal Server Error'') Undefined)"
      "''I led a team of five''" student_session]
    failed_call_gives_apology[of "Rejected ''Failed to fetch''" "''Hello''" student_session]
  by (simp add: student_session_def initial_def)

lemma correction_invariant:
  "correctionCount s = length (filter is_correction (conversationHistory s)) \<Longrightarrow>
   correctionCount (exchanges xs s) = length (filter is_correction (conversationHistory (exchanges xs s)))"
  by (simp add: exchanges_history exchanges_correctionCount)

text \<open>
  C5, as stated: the counter is the number of assistant turns with the marker, the turn of
  the greeting among them. A greeting that begins with \<^verbatim>\<open>Correction:\<close> is put into the
  transcript as the interviewer's turn, and the counter is 0.
\<close>

theorem greeting_correction_counterexample:
  "voiceTranscript
     (startInterview 0 (Responded True (JsonData None (Str ''Correction: speak louder'')))
        True student_session) = [''Interviewer: Correction: speak louder'']
   \<and> includes_str (toLowerCase ''Correction: speak louder'') ''correction:''
   \<and> correctionCount
        (startInterview 0 (Responded True (JsonData None (Str ''Correction: speak louder'')))
           True student_session) = 0"
  by code_simp

text \<open>
  C5, amended: after \<^const>\<open>startInterview\<close> and any sequence of exchanges, \<open>correctionCount\<close> is
  the number of assistant turns of the history whose text, in lower case, contains
  \<^verbatim>\<open>correction:\<close>; these are the replies to the exchanges of \<^const>\<open>processUserResponse\<close>. The
  reply to the greeting is not looked at: whatever it contains, the counter is 0 when the
  greeting is done.
\<close>

theorem correctionCount_counts_marked_turns:
  "apiKey s \<noteq> [] \<longrightarrow>
     correctionCount (startInterview now g ok s) = 0
     \<and> conversationHistory (exchanges xs (startInterview now g ok s)) = turns_of xs
     \<and> correctionCount (exchanges xs (startInterview now g ok s)) =
         length (filter is_correction
                   (conversationHistory (exchanges xs (startInterview now g ok s))))"
  by (simp add: correction_invariant startInterview_fresh exchanges_history)

theorem correctionCount_counts_marked_turns_witness:
  "apiKey student_session \<noteq> []
   \<and> correctionCount
        (startInterview 0 (Responded True (JsonData None (Str ''Correction: speak louder'')))
           True student_session) = 0
   \<and> map content (filter (\<lambda>t. role t = ''assistant'')
        (conversationHistory
          (exchanges
            [(''I has worked there'', Responded True (JsonData None (Str ''Correction: fix your tense''))),
             (''I have worked there'', Responded True (JsonData None (Str ''Great job!''))),
             (''Well, so, it was like'', Responded True (JsonData None (Str ''correction: be concise'')))]
            (startInterview 0 (Responded True (JsonData None (Str ''Correction: speak louder'')))
               True student_session))))
      = [Str ''Correction: fix your tense'', Str ''Great job!'', Str ''correction: be concise'']
   \<and> correctionCount
        (exchanges
          [(''I has worked there'', Responded True (JsonData None (Str ''Correction: fix your tense''))),
           (''I have worked there'', Responded True (JsonData None (Str ''Great job!''))),
           (''Well, so, it was like'', Responded True (JsonData None (Str ''correction: be concise'')))]
          (startInterview 0 (Responded True (JsonData None (Str ''Correction: speak louder'')))
             True student_session)) = 2"
proof -
  let ?xs = "[(''I has worked there'', Responded True (JsonData None (Str ''Correction: fix your tense''))),
           (''I have worked there'', Responded True (JsonData None (Str ''Great job!''))),
           (''Well, so, it was like'', Responded True (JsonData None (Str ''correction: be concise'')))]"
  let ?g = "Responded True (JsonData None (Str ''Correction: speak louder''))"
  let ?s = "startInterview 0 ?g True student_session"
  have k: "apiKey student_session \<noteq> []" by (simp add: student_session_def)
  note t = correctionCount_counts_marked_turns[of student_session 0 ?g True ?xs, THEN mp, OF k]
  have h: "conversationHistory (exchanges ?xs ?s) =
      [user_turn ''I has worked there'', assistant_turn (Str ''Correction: fix your tense''),
       user_turn ''I have worked there'', assistant_turn (Str ''Great job!''),
       user_turn ''Well, so, it was like'', assistant_turn (Str ''correction: be concise'')]"
    unfolding t[THEN conjunct2, THEN conjunct1] by (simp add: turns_of_def)
  have m: "is_correction (assistant_turn (Str ''Correction: fix your tense''))"
    "\<not> is_correction (assistant_turn (Str ''Great job!''))"
    "is_correction (assistant_turn (Str ''correction: be concise''))"
    by code_simp+
  have 0: "correctionCount ?s = 0" by (rule t[THEN conjunct1])
  have "correctionCount (exchanges ?xs ?s) =
      length (filter is_correction (conversationHistory (exchanges ?xs ?s)))"
    by (rule t[THEN conjunct2, THEN conjunct2])
  then have 2: "correctionCount (exchanges ?xs ?s) = 2"
    unfolding h by (simp add: m)
  have 3: "map content (filter (\<lambda>t. role t = ''assistant'') (conversationHistory (exchanges ?xs ?s)))
      = [Str ''Correction: fix your tense'', Str ''Great job!'', Str ''correction: be concise'']"
    unfolding h by (simp add: user_turn_def assistant_turn_def)
  from k 0 3 2 show ?thesis by (intro conjI)
qed

lemma join_butlast:
  "xs \<noteq> [] \<Longrightarrow> join sep xs = concat (map (\<lambda>l. l @ sep) (butlast xs)) @ last xs"
  by (induction sep xs rule: join.induct) simp_all

lemma last_turns_drop: "last_turns n h = drop (length h - n) h"
  by (simp add: last_turns_def take_rev)

lemma toString_case: "toString v = (case v of Undefined \<Rightarrow> ''undefined'' | Str x \<Rightarrow> x)"
  by (cases v) simp_all

text \<open>
  C8: \<^const>\<open>processUserResponse\<close> sends one request, which carries the API key, the whole
  history and the prompt. The prompt is, between the fixed texts of the script and in this
  order: the interview type, the difficulty, one line \<^verbatim>\<open>role: text\<close> for each of the last
  five turns of the history in their order, the oldest first and the lines separated by
  line feeds (the history ends with the new utterance, so the last line is the utterance
  itself), and the new utterance between double quotes.
\<close>

theorem request_carries_context:
  "(let H = conversationHistory s @ [\<lparr>role = ''user'', content = Str m\<rparr>];
        L = drop (length H - 5) H;
        line = (\<lambda>t. role t @ '': ''
                      @ (case content t of Undefined \<Rightarrow> ''undefined'' | Str x \<Rightarrow> x))
    in generateCalls (snd (processUserResponse r m s)) = generateCalls s @
         [\<lparr>api_key = apiKey s,
           prompt =
             ''You are an expert interview coach conducting a ''
             @ inputValue s ''interviewType'' @ '' interview at ''
             @ inputValue s ''difficulty'' @ '' level.'' @ [CHR 0x0A]
             @ ''    '' @ [CHR 0x0A]
             @ ''Previous conversation:'' @ [CHR 0x0A]
             @ concat (map (\<lambda>t. line t @ [CHR 0x0A]) (butlast L)) @ line (last L)
             @ [CHR 0x0A, CHR 0x0A]
             @ ''The candidate just said: '' @ [CHR 0x22] @ m @ [CHR 0x22, CHR 0x0A, CHR 0x0A]
             @ ''Analyze their response and:'' @ [CHR 0x0A]
             @ ''1. If there are issues, provide a brief correction starting with ''
             @ [CHR 0x22] @ ''Correction: '' @ [CHR 0x22, CHR 0x0A]
             @ ''2. Provide encouragement if tone is good'' @ [CHR 0x0A]
             @ ''3. Ask your next question'' @ [CHR 0x0A, CHR 0x0A]
             @ ''Keep responses natural and conversational.'',
           history = H\<rparr>]
       \<and> L = rev (take 5 (rev H))
       \<and> length L = min 5 (length (conversationHistory s) + 1)
       \<and> last L = \<lparr>role = ''user'', content = Str m\<rparr>)"
proof -
  let ?H = "conversationHistory s @ [\<lparr>role = ''user'', content = Str m\<rparr>]"
  let ?L = "drop (length ?H - 5) ?H"
  note g = processUserResponse_generateCalls[of r m s, unfolded user_turn_def]
  have ne: "map turn_line (slice (- 5) None ?H) \<noteq> []"
    by (simp add: slice_last_turns last_turns_drop)
  have ctx: "join [CHR 0x0A] (map turn_line (slice (- 5) None ?H))
      = concat (map (\<lambda>t. turn_line t @ [CHR 0x0A]) (butlast ?L)) @ turn_line (last ?L)"
    unfolding join_butlast[OF ne]
    by (simp add: slice_last_turns last_turns_drop map_butlast[symmetric] last_map comp_def)
  have tl: "turn_line = (\<lambda>t. role t @ '': ''
                      @ (case content t of Undefined \<Rightarrow> ''undefined'' | Str x \<Rightarrow> x))"
    by (rule ext) (simp add: turn_line_def toString_case)
  have p: "response_prompt (inputValue s ''interviewType'') (inputValue s ''difficulty'') ?H m =
             ''You are an expert interview coach conducting a ''
             @ inputValue s ''interviewType'' @ '' interview at ''
             @ inputValue s ''difficulty'' @ '' level.'' @ [CHR 0x0A]
             @ ''    '' @ [CHR 0x0A]
             @ ''Previous conversation:'' @ [CHR 0x0A]
             @ concat (map (\<lambda>t. turn_line t @ [CHR 0x0A]) (butlast ?L)) @ turn_line (last ?L)
             @ [CHR 0x0A, CHR 0x0A]
             @ ''The candidate just said: '' @ [CHR 0x22] @ m @ [CHR 0x22, CHR 0x0A, CHR 0x0A]
             @ ''Analyze their response and:'' @ [CHR 0x0A]
             @ ''1. If there are issues, provide a brief correction starting with ''
             @ [CHR 0x22] @ ''Correction: '' @ [CHR 0x22, CHR 0x0A]
             @ ''2. Provide encouragement if tone is good'' @ [CHR 0x0A]
             @ ''3. Ask your next question'' @ [CHR 0x0A, CHR 0x0A]
             @ ''Keep responses natural and conversational.''"
    unfolding response_prompt_def ctx by simp
  show ?thesis
    unfolding Let_def
    apply (intro conjI)
       apply (simp only: g p tl)
      apply (simp add: take_rev)
     apply simp
    apply simp
    done
qed

theorem request_carries_context_witness:
  "map prompt
     (generateCalls
        (snd (processUserResponse (Rejected ''Failed to fetch'') ''The message sync''
                practice_session)))
   = [''You are an expert interview coach conducting a technical interview at medium level.''
      @ [CHR 0x0A] @ ''    '' @ [CHR 0x0A]
      @ ''Previous conversation:'' @ [CHR 0x0A]
      @ ''user: I like to build things'' @ [CHR 0x0A]
      @ ''assistant: Good. Name one project.'' @ [CHR 0x0A]
      @ ''user: A chat app'' @ [CHR 0x0A]
      @ ''assistant: Correction: say more. What was hard?'' @ [CHR 0x0A]
      @ ''user: The message sync'' @ [CHR 0x0A, CHR 0x0A]
      @ ''The candidate just said: '' @ [CHR 0x22] @ ''The message sync''
      @ [CHR 0x22, CHR 0x0A, CHR 0x0A]
      @ ''Analyze their response and:'' @ [CHR 0x0A]
      @ ''1. If there are issues, provide a brief correction starting with ''
      @ [CHR 0x22] @ ''Correction: '' @ [CHR 0x22, CHR 0x0A]
      @ ''2. Provide encouragement if tone is good'' @ [CHR 0x0A]
      @ ''3. Ask your next question'' @ [CHR 0x0A, CHR 0x0A]
      @ ''Keep responses natural and conversational.'']
   \<and> map (\<lambda>q. length (history q))
        (generateCalls
           (snd (processUserResponse (Rejected ''Failed to fetch'') ''The message sync''
                   practice_session))) = [7]"
  using request_carries_context[of practice_session "''The message sync''"
      "Rejected ''Failed to fetch''"]
  by (simp add: Let_def practice_session_def student_session_def initial_def user_turn_def
        assistant_turn_def)

subsection \<open>Selecting a generated paper\<close>

lemma dropWhile_self: "xs = [] \<or> \<not> P (hd xs) \<Longrightarrow> dropWhile P xs = xs"
  by (cases xs) auto

lemma trim_ends: "trim s = [] \<or> (\<not> is_ws (hd (trim s)) \<and> \<not> is_ws (last (trim s)))"
proof (cases "trim s = []")
  case True
  then show ?thesis by simp
next
  case False
  let ?a = "dropWhile is_ws s"
  let ?b = "dropWhile is_ws (rev ?a)"
  have t: "trim s = rev ?b" by (simp add: trim_def)
  with False have b: "?b \<noteq> []" by simp
  then have hb: "\<not> is_ws (hd ?b)" using hd_dropWhile by blast
  have a: "?a \<noteq> []" using b by (cases "?a = []") simp_all
  then have ha: "\<not> is_ws (hd ?a)" using hd_dropWhile by blast
  have "last (trim s) = hd ?b" using b by (simp add: t last_rev)
  moreover have "hd (trim s) = hd ?a"
  proof -
    have "hd (rev ?b) = last ?b" using b by (simp add: hd_rev)
    also have "\<dots> = last (rev ?a)" using b by (metis last_appendR takeWhile_dropWhile_id)
    also have "\<dots> = hd ?a" using a by (simp add: last_rev)
    finally show ?thesis by (simp add: t)
  qed
  ultimately show ?thesis using ha hb by simp
qed

lemma trim_idem: "trim (trim s) = trim s"
proof (cases "trim s = []")
  case True
  then show ?thesis by (simp add: trim_def[of "[]"])
next
  case False
  with trim_ends[of s] have h: "\<not> is_ws (hd (trim s))" and l: "\<not> is_ws (last (trim s))" by auto
  have 1: "dropWhile is_ws (trim s) = trim s" using h False by (simp add: dropWhile_self)
  have "rev (trim s) \<noteq> []" using False by simp
  moreover have "hd (rev (trim s)) = last (trim s)" using False by (simp add: hd_rev)
  ultimately have 2: "dropWhile is_ws (rev (trim s)) = rev (trim s)" using l by (simp add: dropWhile_self)
  show ?thesis unfolding trim_def[of "trim s"] 1 2 by simp
qed

lemma slice0_nonneg: "0 \<le> k \<Longrightarrow> slice 0 (Some k) xs = take (nat k) xs"
  by (auto simp: slice_def Let_def min_def)

lemma slice0_neg:
  assumes "k < 0"
  shows "slice 0 (Some k) xs = take (length xs - nat (- k)) xs"
proof -
  have "nat (max (int (length xs) + k) 0) = length xs - nat (- k)"
    using assms by linarith
  with assms show ?thesis by (simp add: slice_def Let_def)
qed

lemma set_slice: "set (slice a b xs) \<subseteq> set xs"
  unfolding slice_def Let_def using set_take_subset set_drop_subset by fast

lemma Suc_fst_enumerate: "map (\<lambda>x. Suc (fst x)) (enumerate k xs) = [Suc k ..< Suc (k + length xs)]"
proof -
  have "map (\<lambda>x. Suc (fst x)) (enumerate k xs) = map Suc (map fst (enumerate k xs))"
    by (simp only: map_map comp_def)
  also have "\<dots> = map Suc [k ..< k + length xs]"
    by (simp only: map_fst_enumerate)
  also have "\<dots> = [Suc k ..< Suc (k + length xs)]"
    by (simp only: map_Suc_upt)
  finally show ?thesis .
qed

lemma number_questions:
  "map qid (map (\<lambda>(i, q). \<lparr>qid = i + 1, q_text = q\<rparr>) (enumerate 0 xs)) = [1 ..< Suc (length xs)]"
  using Suc_fst_enumerate[of 0 xs] by (simp add: comp_def case_prod_beta)

lemma text_questions:
  "map q_text (map (\<lambda>(i, q). \<lparr>qid = i + 1, q_text = q\<rparr>) (enumerate 0 xs)) = xs"
  by (simp add: comp_def case_prod_beta)

lemma question_candidates_trimmed:
  "q \<in> set (question_candidates paper) \<Longrightarrow> trim q = q \<and> 20 < length q"
  by (auto simp: question_candidates_def Let_def trim_idem)

lemma parse_questions_texts:
  "map q_text (parse_questions n paper)
     = slice 0 (Some (toInteger (parseInt (if n = [] then ''10'' else n)))) (question_candidates paper)"
  by (simp only: parse_questions_def Let_def text_questions)

lemma parse_questions_qids:
  "map qid (parse_questions n paper) = [1 ..< Suc (length (parse_questions n paper))]"
  by (simp only: parse_questions_def Let_def number_questions length_map length_enumerate)

lemma parseInt_default: "parseInt ''10'' = Some 10"
  by code_simp

lemma useGeneratedPaper_stored:
  assumes "generated_papers s = Some obj" and "i \<noteq> ''__proto__''"
    and "obj i = Some paper" and "paper \<noteq> []"
  shows "fst (useGeneratedPaper i s) = Returned"
    and "selected_generated_questions (snd (useGeneratedPaper i s))
          = Some (parse_questions (inputValue s ''numQuestions'') paper)"
    and "\<exists>t. toasts (snd (useGeneratedPaper i s)) = toasts s @ [(t, ''info'')]"
  using assms by (simp_all add: useGeneratedPaper_def get_property_def showToast_def)

lemma useGeneratedPaper_not_found:
  assumes "generated_papers s = None
           \<or> (generated_papers s = Some obj \<and> i \<noteq> ''__proto__''
              \<and> (obj i = Some [] \<or> (obj i = None \<and> i \<notin> set object_prototype_names)))"
  shows "useGeneratedPaper i s
          = (Returned, s\<lparr>toasts := toasts s @ [(''Paper not found'', ''error'')]\<rparr>)"
  using assms by (auto simp: useGeneratedPaper_def get_property_def showToast_def)

lemma useGeneratedPaper_inherited:
  assumes "generated_papers s = Some obj"
    and "i = ''__proto__'' \<or> (obj i = None \<and> i \<in> set object_prototype_names)"
  shows "useGeneratedPaper i s = (Threw TypeError, s)"
  using assms by (auto simp: useGeneratedPaper_def get_property_def)

text \<open>
  C10, amended: for a paper id under which a content is stored, \<^const>\<open>useGeneratedPaper\<close>
  stores the parsed questions as the selection and shows a notice. Every text of the list
  is trimmed and longer than 20, and the \<open>qid\<close>s are 1, 2, ... in the order of the list.
  The list is the first \<open>k\<close> candidates, so at most \<open>k\<close> long, when the value of
  \<^verbatim>\<open>numQuestions\<close> parses to a number \<open>k\<close> that is not negative (10 when the input is empty);
  it is empty when the value is no number; and when the value parses to a negative number
  \<open>-j\<close>, it is all the candidates but the last \<open>j\<close>. A paper id without content (no paper
  generated yet, nothing or an empty content under the id) shows the notice
  \<^verbatim>\<open>Paper not found\<close> and changes nothing else, unless the id is the name of a property that
  every object inherits, such as \<^verbatim>\<open>constructor\<close>: then, once a paper has been generated, the
  lookup gives that property, the call of its \<^verbatim>\<open>split\<close> raises TypeError, and nothing is
  shown or changed.
\<close>

theorem selected_questions_bounded:
  "(\<forall>k. parseInt (if n = [] then ''10'' else n) = Some k \<and> 0 \<le> k \<longrightarrow>
        map q_text (parse_questions n paper) = take (nat k) (question_candidates paper)
        \<and> int (length (parse_questions n paper)) \<le> k)
   \<and> (\<forall>k. parseInt (if n = [] then ''10'' else n) = Some k \<and> k < 0 \<longrightarrow>
        map q_text (parse_questions n paper)
          = take (length (question_candidates paper) - nat (- k)) (question_candidates paper))
   \<and> (parseInt (if n = [] then ''10'' else n) = None \<longrightarrow> parse_questions n paper = [])
   \<and> parseInt ''10'' = Some 10
   \<and> (\<forall>q \<in> set (parse_questions n paper). trim (q_text q) = q_text q \<and> 20 < length (q_text q))
   \<and> map qid (parse_questions n paper) = [1 ..< Suc (length (parse_questions n paper))]
   \<and> (generated_papers s = Some obj \<and> i \<noteq> ''__proto__'' \<and> obj i = Some paper \<and> paper \<noteq> []
        \<longrightarrow> fst (useGeneratedPaper i s) = Returned
          \<and> selected_generated_questions (snd (useGeneratedPaper i s))
              = Some (parse_questions (inputValue s ''numQuestions'') paper)
          \<and> (\<exists>t. toasts (snd (useGeneratedPaper i s)) = toasts s @ [(t, ''info'')]))
   \<and> (generated_papers s = None
        \<or> (generated_papers s = Some obj \<and> i \<noteq> ''__proto__''
           \<and> (obj i = Some [] \<or> (obj i = None \<and> i \<notin> set object_prototype_names)))
        \<longrightarrow> useGeneratedPaper i s
              = (Returned, s\<lparr>toasts := toasts s @ [(''Paper not found'', ''error'')]\<rparr>))
   \<and> (generated_papers s = Some obj
        \<and> (i = ''__proto__'' \<or> (obj i = None \<and> i \<in> set object_prototype_names))
        \<longrightarrow> useGeneratedPaper i s = (Threw TypeError, s))"
proof (intro conjI allI impI ballI)
  let ?lim = "parseInt (if n = [] then ''10'' else n)"
  let ?c = "question_candidates paper"
  note t = parse_questions_texts[of n paper]
  have len: "length (parse_questions n paper) = length (slice 0 (Some (toInteger ?lim)) ?c)"
    using t by (metis length_map)
  show "map q_text (parse_questions n paper) = take (nat k) ?c" if "?lim = Some k \<and> 0 \<le> k" for k
    using that by (simp add: t toInteger_def slice0_nonneg)
  show "int (length (parse_questions n paper)) \<le> k" if "?lim = Some k \<and> 0 \<le> k" for k
  proof -
    from that have "length (parse_questions n paper) = min (length ?c) (nat k)"
      by (simp add: len toInteger_def slice0_nonneg)
    with that show ?thesis by linarith
  qed
  show "map q_text (parse_questions n paper) = take (length ?c - nat (- k)) ?c"
    if "?lim = Some k \<and> k < 0" for k
    using that by (simp add: t toInteger_def slice0_neg)
  show "parse_questions n paper = []" if "?lim = None"
    using that len by (simp add: toInteger_def slice0_nonneg)
  show "parseInt ''10'' = Some 10" by (rule parseInt_default)
  have d: "trim (q_text x) = q_text x \<and> 20 < length (q_text x)"
    if "x \<in> set (parse_questions n paper)" for x
  proof -
    from that have "q_text x \<in> set (map q_text (parse_questions n paper))" by simp
    then have "q_text x \<in> set ?c" unfolding t by (rule set_slice[THEN subsetD])
    then show ?thesis by (rule question_candidates_trimmed)
  qed
  show "trim (q_text x) = q_text x" if "x \<in> set (parse_questions n paper)" for x
    using d[OF that] by simp
  show "20 < length (q_text x)" if "x \<in> set (parse_questions n paper)" for x
    using d[OF that] by simp
  show "map qid (parse_questions n paper) = [1 ..< Suc (length (parse_questions n paper))]"
    by (rule parse_questions_qids)
  assume st: "generated_papers s = Some obj \<and> i \<noteq> ''__proto__'' \<and> obj i = Some paper
              \<and> paper \<noteq> []"
  show "fst (useGeneratedPaper i s) = Returned"
    using st by (intro useGeneratedPaper_stored(1)[of s obj i paper]) simp_all
  show "selected_generated_questions (snd (useGeneratedPaper i s))
              = Some (parse_questions (inputValue s ''numQuestions'') paper)"
    using st by (intro useGeneratedPaper_stored(2)[of s obj i paper]) simp_all
  show "\<exists>t. toasts (snd (useGeneratedPaper i s)) = toasts s @ [(t, ''info'')]"
    using st by (intro useGeneratedPaper_stored(3)[of s obj i paper]) simp_all
next
  assume "generated_papers s = None
        \<or> (generated_papers s = Some obj \<and> i \<noteq> ''__proto__''
           \<and> (obj i = Some [] \<or> (obj i = None \<and> i \<notin> set object_prototype_names)))"
  then show "useGeneratedPaper i s
              = (Returned, s\<lparr>toasts := toasts s @ [(''Paper not found'', ''error'')]\<rparr>)"
    by (rule useGeneratedPaper_not_found)
next
  assume "generated_papers s = Some obj
        \<and> (i = ''__proto__'' \<or> (obj i = None \<and> i \<in> set object_prototype_names))"
  then show "useGeneratedPaper i s = (Threw TypeError, s)"
    using useGeneratedPaper_inherited[of s obj i] by blast
qed

lemma sample_paper_candidates:
  "question_candidates sample_paper =
     [''Explain what a closure is in JavaScript.'', ''Describe the phases of the event loop.'',
      ''What is a promise, and how is it settled?'']"
  by code_simp

lemma sample_paper_stored:
  "generated_papers (teacher_session n) = Some [''p1'' \<mapsto> sample_paper]"
  "inputValue (teacher_session n) ''numQuestions'' = n"
  "sample_paper \<noteq> []"
  by (simp_all add: teacher_session_def sample_paper_def)

lemma parseInt_samples: "parseInt ''-1'' = Some (- 1)" "parseInt ''2'' = Some 2" "parseInt ''ten'' = None"
  by code_simp+

text \<open>
  C10, as stated: the list is at most as long as the parsed value of
  \<^verbatim>\<open>numQuestions\<close>. With the value \<^verbatim>\<open>-1\<close> and the sample paper of three questions,
  \<^verbatim>\<open>slice(0, -1)\<close> drops the last one: two questions are selected, and two is more than -1.
\<close>

theorem negative_limit_counterexample:
  "parseInt (inputValue (teacher_session ''-1'') ''numQuestions'') = Some (- 1)
   \<and> selected_generated_questions (snd (useGeneratedPaper ''p1'' (teacher_session ''-1'')))
       = Some [\<lparr>qid = 1, q_text = ''Explain what a closure is in JavaScript.''\<rparr>,
               \<lparr>qid = 2, q_text = ''Describe the phases of the event loop.''\<rparr>]"
  by (simp add: sample_paper_stored parseInt_samples useGeneratedPaper_def get_property_def
        showToast_def parse_questions_def sample_paper_candidates toInteger_def slice_def
        enumerate_eq_zip)

theorem selected_questions_bounded_witness:
  "parseInt ''2'' = Some 2
   \<and> map q_text (parse_questions ''2'' sample_paper)
       = [''Explain what a closure is in JavaScript.'', ''Describe the phases of the event loop.'']
   \<and> int (length (parse_questions ''2'' sample_paper)) \<le> 2
   \<and> map qid (parse_questions ''2'' sample_paper) = [1, 2]
   \<and> parseInt ''ten'' = None \<and> parse_questions ''ten'' sample_paper = []
   \<and> fst (useGeneratedPaper ''p1'' (teacher_session ''2'')) = Returned
   \<and> selected_generated_questions (snd (useGeneratedPaper ''p1'' (teacher_session ''2'')))
       = Some (parse_questions ''2'' sample_paper)
   \<and> useGeneratedPaper ''p9'' (teacher_session ''2'')
       = (Returned, (teacher_session ''2'')\<lparr>toasts := [(''Paper not found'', ''error'')]\<rparr>)
   \<and> useGeneratedPaper ''constructor'' (teacher_session ''2'')
       = (Threw TypeError, teacher_session ''2'')
   \<and> useGeneratedPaper ''constructor'' (initial sample_page)
       = (Returned, (initial sample_page)\<lparr>toasts := [(''Paper not found'', ''error'')]\<rparr>)"
proof -
  let ?obj = "[''p1'' \<mapsto> sample_paper]"
  note w = selected_questions_bounded[of "''2''" sample_paper "teacher_session ''2''" ?obj "''p1''"]
  note v = selected_questions_bounded[of "''ten''" sample_paper "teacher_session ''2''" ?obj "''p9''"]
  note c = selected_questions_bounded[of "''2''" sample_paper "teacher_session ''2''" ?obj
      "''constructor''"]
  note z = selected_questions_bounded[of "''2''" sample_paper "initial sample_page" ?obj
      "''constructor''"]
  have p: "parseInt (if ''2'' = [] then ''10'' else ''2'') = Some 2 \<and> (0::int) \<le> 2"
    by (simp add: parseInt_samples)
  from w[THEN conjunct1, rule_format, OF p]
  have t: "map q_text (parse_questions ''2'' sample_paper) = take (nat 2) (question_candidates sample_paper)"
    and l: "int (length (parse_questions ''2'' sample_paper)) \<le> 2"
    by simp_all
  from t have t': "map q_text (parse_questions ''2'' sample_paper)
       = [''Explain what a closure is in JavaScript.'', ''Describe the phases of the event loop.'']"
    by (simp add: sample_paper_candidates)
  then have n2: "length (parse_questions ''2'' sample_paper) = 2"
    by (metis length_map length_Cons list.size(3) One_nat_def Suc_1)
  note w6 = w[THEN conjunct2, THEN conjunct2, THEN conjunct2, THEN conjunct2, THEN conjunct2]
  have "map qid (parse_questions ''2'' sample_paper) = [1 ..< Suc (length (parse_questions ''2'' sample_paper))]"
    by (rule w6[THEN conjunct1])
  then have q: "map qid (parse_questions ''2'' sample_paper) = [1, 2]"
    unfolding n2 by (simp add: upt_rec)
  have "parseInt (if ''ten'' = [] then ''10'' else ''ten'') = None" by (simp add: parseInt_samples)
  with v[THEN conjunct2, THEN conjunct2, THEN conjunct1]
  have e: "parse_questions ''ten'' sample_paper = []" by (rule mp)
  have g: "generated_papers (teacher_session ''2'') = Some ?obj \<and> ''p1'' \<noteq> ''__proto__''
      \<and> ?obj ''p1'' = Some sample_paper \<and> sample_paper \<noteq> []"
    by (simp add: sample_paper_stored)
  note s1 = w6[THEN conjunct2, THEN conjunct1, THEN mp, OF g]
  have s1a: "fst (useGeneratedPaper ''p1'' (teacher_session ''2'')) = Returned"
    by (rule s1[THEN conjunct1])
  have s1b: "selected_generated_questions (snd (useGeneratedPaper ''p1'' (teacher_session ''2'')))
       = Some (parse_questions ''2'' sample_paper)"
    using s1[THEN conjunct2, THEN conjunct1] by (simp add: sample_paper_stored)
  note v6 = v[THEN conjunct2, THEN conjunct2, THEN conjunct2, THEN conjunct2, THEN conjunct2]
  have h: "generated_papers (teacher_session ''2'') = None
        \<or> (generated_papers (teacher_session ''2'') = Some ?obj \<and> ''p9'' \<noteq> ''__proto__''
           \<and> (?obj ''p9'' = Some [] \<or> (?obj ''p9'' = None \<and> ''p9'' \<notin> set object_prototype_names)))"
    by (simp add: sample_paper_stored object_prototype_names_def)
  have s2: "useGeneratedPaper ''p9'' (teacher_session ''2'')
       = (Returned, (teacher_session ''2'')\<lparr>toasts := [(''Paper not found'', ''error'')]\<rparr>)"
    using v6[THEN conjunct2, THEN conjunct2, THEN conjunct1, THEN mp, OF h]
    by (simp add: teacher_session_def initial_def)
  note c6 = c[THEN conjunct2, THEN conjunct2, THEN conjunct2, THEN conjunct2, THEN conjunct2]
  have hc: "generated_papers (teacher_session ''2'') = Some ?obj
        \<and> (''constructor'' = ''__proto__''
           \<or> (?obj ''constructor'' = None \<and> ''constructor'' \<in> set object_prototype_names))"
    by (simp add: sample_paper_stored object_prototype_names_def)
  have s3: "useGeneratedPaper ''constructor'' (teacher_session ''2'')
       = (Threw TypeError, teacher_session ''2'')"
    by (rule c6[THEN conjunct2, THEN conjunct2, THEN conjunct2, THEN mp, OF hc])
  note z6 = z[THEN conjunct2, THEN conjunct2, THEN conjunct2, THEN conjunct2, THEN conjunct2]
  have hz: "generated_papers (initial sample_page) = None
        \<or> (generated_papers (initial sample_page) = Some ?obj \<and> ''constructor'' \<noteq> ''__proto__''
           \<and> (?obj ''constructor'' = Some []
              \<or> (?obj ''constructor'' = None \<and> ''constructor'' \<notin> set object_prototype_names)))"
    by (simp add: initial_def)
  have s4: "useGeneratedPaper ''constructor'' (initial sample_page)
       = (Returned, (initial sample_page)\<lparr>toasts := [(''Paper not found'', ''error'')]\<rparr>)"
    using z6[THEN conjunct2, THEN conjunct2, THEN conjunct1, THEN mp, OF hz]
    by (simp add: initial_def)
  from t' l q e s1a s1b s2 s3 s4 show ?thesis
    by (simp add: parseInt_samples)
qed

end
